theory Spec2Isabelle
  imports Main "HOL-Library.Sublist"
begin

section \<open>JavaScript values\<close>

text \<open>
  The renderer is untyped JavaScript that walks a document obtained from
  \<^verbatim>\<open>JSON.parse\<close>. A document is therefore a JSON value: null, a boolean, a number, a
  string, an array, or an object whose properties keep their creation order.
  \<^verbatim>\<open>JUndefined\<close> is what reading a missing property gives. Numbers are the integers
  that JavaScript represents exactly and prints as decimal numerals (the numbers of a CV
  document are heading levels); other numbers are outside the model. Strings are lists
  of 8-bit characters, read as the code units U+0000 to U+00FF.

  The last three constructors are what an object or an array inherits from its
  prototype: \<^verbatim>\<open>JFunction n\<close> is the built-in function whose name is \<open>n\<close>, and the
  other two are \<^verbatim>\<open>Object.prototype\<close> and \<^verbatim>\<open>Array.prototype\<close> themselves, reached as
  \<^verbatim>\<open>__proto__\<close>. No document contains them: they only arise when a value is indexed
  with a computed key, as \<^verbatim>\<open>localizedText[language]\<close> does.
\<close>

datatype jsval =
    JUndefined
  | JNull
  | JBool bool
  | JNum int
  | JStr string
  | JArr "jsval list"
  | JObj "(string \<times> jsval) list"
  | JFunction string
  | JObjectPrototype
  | JArrayPrototype

text \<open>The conditions the source can throw.\<close>

datatype error =
    InvalidCVData         \<comment> \<open>\<^verbatim>\<open>new Error("Invalid CV data structure")\<close>\<close>
  | TypeError             \<comment> \<open>calling what is not a function, reading a property of null\<close>
  | InvalidCharacterError \<comment> \<open>\<^verbatim>\<open>document.createElement\<close> on a string that is no element name\<close>

text \<open>\<^verbatim>\<open>!v\<close> is \<open>\<not> truthy v\<close>.\<close>

fun truthy :: "jsval \<Rightarrow> bool" where
  "truthy JUndefined = False"
| "truthy JNull = False"
| "truthy (JBool b) = b"
| "truthy (JNum n) = (n \<noteq> 0)"
| "truthy (JStr s) = (s \<noteq> [])"
| "truthy (JArr xs) = True"
| "truthy (JObj kvs) = True"
| "truthy (JFunction n) = True"
| "truthy JObjectPrototype = True"
| "truthy JArrayPrototype = True"

fun typeof :: "jsval \<Rightarrow> string" where
  "typeof JUndefined = ''undefined''"
| "typeof JNull = ''object''"
| "typeof (JBool b) = ''boolean''"
| "typeof (JNum n) = ''number''"
| "typeof (JStr s) = ''string''"
| "typeof (JArr xs) = ''object''"
| "typeof (JObj kvs) = ''object''"
| "typeof (JFunction n) = ''function''"
| "typeof JObjectPrototype = ''object''"
| "typeof JArrayPrototype = ''object''"

text \<open>\<^verbatim>\<open>Array.isArray\<close>; \<^verbatim>\<open>Array.prototype\<close> is itself an array, an empty one.\<close>

fun isArray :: "jsval \<Rightarrow> bool" where
  "isArray (JArr xs) = True"
| "isArray JArrayPrototype = True"
| "isArray _ = False"

subsection \<open>Decimal numerals and array indices\<close>

fun dec_nat :: "nat \<Rightarrow> string" where
  "dec_nat n = (if n < 10 then [char_of (48 + n)] else dec_nat (n div 10) @ [char_of (48 + n mod 10)])"

definition dec_int :: "int \<Rightarrow> string" where
  "dec_int i = (if i < 0 then CHR ''-'' # dec_nat (nat (- i)) else dec_nat (nat i))"

definition is_digit :: "char \<Rightarrow> bool" where
  "is_digit c = (48 \<le> (of_char c :: nat) \<and> (of_char c :: nat) \<le> 57)"

definition undec :: "string \<Rightarrow> nat" where
  "undec s = foldl (\<lambda>a c. 10 * a + (of_char c - 48)) 0 s"

text \<open>
  An array index is a canonical decimal numeral below \<open>2^32 - 1\<close>. Property keys that
  are array indices are enumerated first, in ascending numeric order; the other keys
  follow in creation order.
\<close>

definition is_array_index :: "string \<Rightarrow> bool" where
  "is_array_index k =
     (k \<noteq> [] \<and> list_all is_digit k \<and> (hd k \<noteq> CHR ''0'' \<or> k = ''0'') \<and> undec k < 4294967295)"

subsection \<open>Reading properties\<close>

text \<open>
  \<open>field v k\<close> is \<^verbatim>\<open>v.k\<close> for the fixed property names the renderer reads (\<^verbatim>\<open>type\<close>,
  \<^verbatim>\<open>title\<close>, \<^verbatim>\<open>blocks\<close>, \<^verbatim>\<open>items\<close>, \<^verbatim>\<open>name\<close>, \<^verbatim>\<open>contact\<close>, \<^verbatim>\<open>email\<close>,
  \<^verbatim>\<open>phone\<close>, \<^verbatim>\<open>location\<close>, \<^verbatim>\<open>level\<close>, \<^verbatim>\<open>text\<close>) on a value other than null and
  undefined. None of these names is an array index or a member of a built-in prototype,
  so an object can have one only as a property of its own, and no array, string, number
  or boolean has one; a function has its \<^verbatim>\<open>name\<close>. An association list stands for the
  object that its first binding of every key creates.
\<close>

fun field :: "jsval \<Rightarrow> string \<Rightarrow> jsval" where
  "field (JObj kvs) k = (case map_of kvs k of Some v \<Rightarrow> v | None \<Rightarrow> JUndefined)"
| "field (JFunction n) k = (if k = ''name'' then JStr n else JUndefined)"
| "field _ k = JUndefined"

text \<open>
  Reading a property of null or of undefined throws a TypeError. Every function below
  that reads a property of an argument it has not tested throws it first.
\<close>

fun nullish :: "jsval \<Rightarrow> bool" where
  "nullish JNull = True"
| "nullish JUndefined = True"
| "nullish _ = False"

definition object_prototype_members :: "string list" where
  "object_prototype_members =
     [''constructor'', ''__defineGetter__'', ''__defineSetter__'', ''hasOwnProperty'',
      ''__lookupGetter__'', ''__lookupSetter__'', ''isPrototypeOf'',
      ''propertyIsEnumerable'', ''toString'', ''valueOf'', ''__proto__'',
      ''toLocaleString'']"

text \<open>The string-keyed members of \<^verbatim>\<open>Array.prototype\<close> in ECMAScript 2023.\<close>

definition array_prototype_members :: "string list" where
  "array_prototype_members =
     [''at'', ''concat'', ''copyWithin'', ''entries'', ''every'', ''fill'', ''filter'',
      ''find'', ''findIndex'', ''findLast'', ''findLastIndex'', ''flat'', ''flatMap'',
      ''forEach'', ''includes'', ''indexOf'', ''join'', ''keys'', ''lastIndexOf'', ''map'',
      ''pop'', ''push'', ''reduce'', ''reduceRight'', ''reverse'', ''shift'', ''slice'',
      ''some'', ''sort'', ''splice'', ''toReversed'', ''toSorted'', ''toSpliced'',
      ''unshift'', ''values'', ''with'']"

text \<open>
  What a plain object and what an array find on their prototype chain under the name
  \<open>k\<close>, when they have no property \<open>k\<close> of their own.
\<close>

definition object_inherited :: "string \<Rightarrow> jsval" where
  "object_inherited k =
     (if k = ''__proto__'' then JObjectPrototype
      else if k = ''constructor'' then JFunction ''Object''
      else if k \<in> set object_prototype_members then JFunction k
      else JUndefined)"

definition array_inherited :: "string \<Rightarrow> jsval" where
  "array_inherited k =
     (if k = ''__proto__'' then JArrayPrototype
      else if k = ''constructor'' then JFunction ''Array''
      else if k \<in> set array_prototype_members \<or> k \<in> set object_prototype_members
        then JFunction k
      else JUndefined)"

text \<open>
  \<open>index v k\<close> is \<^verbatim>\<open>v[k]\<close> for a computed key \<open>k\<close> on a value whose \<^verbatim>\<open>typeof\<close> is
  \<^verbatim>\<open>"object"\<close> and that is not null: the value's own property, else the member it
  inherits. The prototype of \<^verbatim>\<open>Object.prototype\<close> is null.
\<close>

fun index :: "jsval \<Rightarrow> string \<Rightarrow> jsval" where
  "index (JObj kvs) k = (case map_of kvs k of Some v \<Rightarrow> v | None \<Rightarrow> object_inherited k)"
| "index (JArr xs) k =
     (if is_array_index k \<and> undec k < length xs then xs ! undec k
      else if k = ''length'' then JNum (int (length xs))
      else array_inherited k)"
| "index JObjectPrototype k = (if k = ''__proto__'' then JNull else object_inherited k)"
| "index JArrayPrototype k =
     (if k = ''length'' then JNum 0
      else if k = ''__proto__'' then JObjectPrototype
      else array_inherited k)"
| "index _ k = JUndefined"

text \<open>\<^verbatim>\<open>Object.keys(v)\<close>: the enumerable own property names, in enumeration order.\<close>

primrec first_bound :: "string list \<Rightarrow> string list" where
  "first_bound [] = []"
| "first_bound (k # ks) = k # filter (\<lambda>x. x \<noteq> k) (first_bound ks)"

fun keys :: "jsval \<Rightarrow> string list" where
  "keys (JObj kvs) =
     (let ks = first_bound (map fst kvs)
      in sort_key undec (filter is_array_index ks) @ filter (\<lambda>k. \<not> is_array_index k) ks)"
| "keys (JArr xs) = map dec_nat [0..<length xs]"
| "keys _ = []"

section \<open>TextProcessor\<close>

subsection \<open>getLocalizedText\<close>

text \<open>
  Indexing a truthy value whose type is \<^verbatim>\<open>"object"\<close> cannot throw, so the function has
  no error result.
\<close>

definition getLocalizedText :: "jsval \<Rightarrow> string \<Rightarrow> jsval" where
  "getLocalizedText localizedText language =
     (if \<not> truthy localizedText then JStr ''''
      else if typeof localizedText = ''string'' then localizedText
      else if typeof localizedText = ''object'' then
        (if truthy (index localizedText language) then index localizedText language
         else
           (let availableLanguages = keys localizedText
            in if length availableLanguages > 0
               then index localizedText (availableLanguages ! 0)
               else JStr ''''))
      else JStr '''')"

text \<open>
  The data model's LocalizedText: a plain string, or a mapping from language codes to
  strings, or absent. A language code is not an array index.
\<close>

fun is_string :: "jsval \<Rightarrow> bool" where
  "is_string (JStr s) = True"
| "is_string _ = False"

definition language_mapping :: "(string \<times> jsval) list \<Rightarrow> bool" where
  "language_mapping kvs = list_all (\<lambda>(k, v). \<not> is_array_index k \<and> is_string v) kvs"

fun is_LocalizedText :: "jsval \<Rightarrow> bool" where
  "is_LocalizedText JUndefined = True"
| "is_LocalizedText JNull = True"
| "is_LocalizedText (JStr s) = True"
| "is_LocalizedText (JObj kvs) = language_mapping kvs"
| "is_LocalizedText _ = False"

subsection \<open>processText\<close>

text \<open>
  \<^verbatim>\<open>text.replace(/\{\{bold\('([^']+)'\)\}\}/g, "<strong>$1</strong>")\<close> and its
  underline twin. \<open>match_markup name s\<close> matches the pattern for \<open>name\<close> at the start of
  \<open>s\<close> and returns the captured content and the text after the match. The class
  \<^verbatim>\<open>[^']+\<close> is followed by a literal apostrophe, so the only run that can match is
  the longest one: backtracking to a shorter run never succeeds.
\<close>

definition apostrophe :: char where
  "apostrophe = CHR 0x27"

definition match_markup :: "string \<Rightarrow> string \<Rightarrow> (string \<times> string) option" where
  "match_markup name s =
     (let opener = ''{{'' @ name @ ''('' @ [apostrophe]; closer = apostrophe # '')}}''
      in if prefix opener s then
           (let rest = drop (length opener) s;
                content = takeWhile (\<lambda>c. c \<noteq> apostrophe) rest;
                after = dropWhile (\<lambda>c. c \<noteq> apostrophe) rest
            in if content \<noteq> [] \<and> prefix closer after
               then Some (content, drop (length closer) after)
               else None)
         else None)"

lemma match_markup_shorter:
  assumes "match_markup name s = Some (content, rest)"
  shows "length rest < length s"
proof -
  define opener where "opener = ''{{'' @ name @ ''('' @ [apostrophe]"
  define after where "after = dropWhile (\<lambda>c. c \<noteq> apostrophe) (drop (length opener) s)"
  from assms have p: "prefix opener s" and r: "\<exists>k. rest = drop k after"
    unfolding match_markup_def Let_def opener_def [symmetric] after_def [symmetric]
    by (auto split: if_splits)
  have "length after \<le> length s - length opener"
    unfolding after_def using length_dropWhile_le [of _ "drop (length opener) s"] by simp
  moreover from p have "length opener \<le> length s"
    by (rule prefix_length_le)
  moreover have "4 \<le> length opener"
    by (simp add: opener_def)
  ultimately show ?thesis
    using r by auto
qed

text \<open>
  The global replace scans left to right: where the pattern matches, the match is
  replaced by the tags around the captured content and the scan goes on after it; where
  it does not, one character is copied.
\<close>

function replace_markup :: "string \<Rightarrow> string \<Rightarrow> string \<Rightarrow> string \<Rightarrow> string" where
  "replace_markup name open_tag close_tag [] = []"
| "replace_markup name open_tag close_tag (c # cs) =
     (case match_markup name (c # cs) of
        Some (content, rest) \<Rightarrow>
          open_tag @ content @ close_tag @ replace_markup name open_tag close_tag rest
      | None \<Rightarrow> c # replace_markup name open_tag close_tag cs)"
  by pat_completeness auto
termination
  by (relation "measure (\<lambda>(name, open_tag, close_tag, s). length s)")
     (auto dest: match_markup_shorter)

definition replace_bold :: "string \<Rightarrow> string" where
  "replace_bold = replace_markup ''bold'' ''<strong>'' ''</strong>''"

definition replace_underline :: "string \<Rightarrow> string" where
  "replace_underline = replace_markup ''underline'' ''<u>'' ''</u>''"

definition processText :: "jsval \<Rightarrow> string" where
  "processText text =
     (if \<not> truthy text \<or> typeof text \<noteq> ''string'' then ''''
      else case text of
             JStr s \<Rightarrow> replace_underline (replace_bold s)
           | _ \<Rightarrow> '''')"

definition processLocalizedText :: "jsval \<Rightarrow> string \<Rightarrow> string" where
  "processLocalizedText localizedText language =
     processText (getLocalizedText localizedText language)"

section \<open>CVRenderer\<close>

subsection \<open>generateId\<close>

text \<open>
  \<^verbatim>\<open>toLowerCase\<close> on the code units up to U+00FF: the ASCII capitals and the Latin-1
  capitals U+00C0 to U+00DE (but the multiplication sign U+00D7) move up by 32.
\<close>

definition lower_char :: "char \<Rightarrow> char" where
  "lower_char c =
     (let n = (of_char c :: nat)
      in if (65 \<le> n \<and> n \<le> 90) \<or> (192 \<le> n \<and> n \<le> 222 \<and> n \<noteq> 215)
         then char_of (n + 32) else c)"

definition toLowerCase :: "string \<Rightarrow> string" where
  "toLowerCase s = map lower_char s"

text \<open>
  The white space of \<^verbatim>\<open>\s\<close> and of \<^verbatim>\<open>trim\<close> among these code units: tab, line feed,
  vertical tab, form feed, carriage return, space and the no-break space.
\<close>

definition is_space :: "char \<Rightarrow> bool" where
  "is_space c = ((of_char c :: nat) \<in> {9, 10, 11, 12, 13, 32, 160})"

definition is_lower_alnum :: "char \<Rightarrow> bool" where
  "is_lower_alnum c =
     (let n = (of_char c :: nat) in (97 \<le> n \<and> n \<le> 122) \<or> (48 \<le> n \<and> n \<le> 57))"

text \<open>\<^verbatim>\<open>.replace(/[^a-z0-9\s-]/g, "")\<close>\<close>

definition strip_unsafe :: "string \<Rightarrow> string" where
  "strip_unsafe s = filter (\<lambda>c. is_lower_alnum c \<or> is_space c \<or> c = CHR ''-'') s"

text \<open>
  \<^verbatim>\<open>.replace(/\s+/g, "-")\<close> and \<^verbatim>\<open>.replace(/-+/g, "-")\<close>: every maximal run of
  characters of the class becomes one hyphen.
\<close>

function replace_runs :: "(char \<Rightarrow> bool) \<Rightarrow> string \<Rightarrow> string" where
  "replace_runs P [] = []"
| "replace_runs P (c # cs) =
     (if P c then CHR ''-'' # replace_runs P (dropWhile P cs) else c # replace_runs P cs)"
  by pat_completeness auto
termination
  by (relation "measure (\<lambda>(P, s). length s)") (auto simp: less_Suc_eq_le length_dropWhile_le)

definition trim :: "string \<Rightarrow> string" where
  "trim s = rev (dropWhile is_space (rev (dropWhile is_space s)))"

text \<open>
  \<^verbatim>\<open>text.toLowerCase\<close> is a function only when \<^verbatim>\<open>text\<close> is a string: on any other
  truthy value the call throws a TypeError.
\<close>

definition generateId :: "jsval \<Rightarrow> error + string" where
  "generateId text =
     (if \<not> truthy text then Inr ''''
      else case text of
             JStr s \<Rightarrow>
               Inr (trim (replace_runs (\<lambda>c. c = CHR ''-'')
                            (replace_runs is_space (strip_unsafe (toLowerCase s)))))
           | _ \<Rightarrow> Inl TypeError)"

subsection \<open>Conversion to string\<close>

text \<open>
  What a template literal does to an interpolated value. An array joins its elements
  with commas, null and undefined elements giving the empty string. An object gives
  \<^verbatim>\<open>[object Object]\<close> through the inherited \<^verbatim>\<open>toString\<close>; an object with a property
  \<^verbatim>\<open>toString\<close> of its own (never callable in a JSON value) cannot be converted, which
  throws a TypeError. The text of a built-in function is the one V8 prints.
\<close>

fun to_string :: "jsval \<Rightarrow> error + string"
  and join_elements :: "jsval list \<Rightarrow> error + string"
where
  "to_string JUndefined = Inr ''undefined''"
| "to_string JNull = Inr ''null''"
| "to_string (JBool b) = Inr (if b then ''true'' else ''false'')"
| "to_string (JNum n) = Inr (dec_int n)"
| "to_string (JStr s) = Inr s"
| "to_string (JArr xs) = join_elements xs"
| "to_string (JObj kvs) =
     (if map_of kvs ''toString'' = None then Inr ''[object Object]'' else Inl TypeError)"
| "to_string (JFunction n) = Inr (''function '' @ n @ ''() { [native code] }'')"
| "to_string JObjectPrototype = Inr ''[object Object]''"
| "to_string JArrayPrototype = Inr ''''"
| "join_elements [] = Inr ''''"
| "join_elements (x # xs) =
     (case (if x = JNull \<or> x = JUndefined then Inr '''' else to_string x) of
        Inl e \<Rightarrow> Inl e
      | Inr s \<Rightarrow>
          if xs = [] then Inr s
          else (case join_elements xs of Inl e \<Rightarrow> Inl e | Inr t \<Rightarrow> Inr (s @ '','' @ t)))"

subsection \<open>The presentation tree\<close>

text \<open>
  An element has a tag name, its attributes in the order they were first set, and its
  children. Assigning \<^verbatim>\<open>textContent\<close> leaves one text node, assigning \<^verbatim>\<open>innerHTML\<close>
  leaves the markup, which the model keeps unparsed; the empty string leaves no child.
  The properties \<^verbatim>\<open>className\<close>, \<^verbatim>\<open>id\<close>, \<^verbatim>\<open>href\<close> and \<^verbatim>\<open>title\<close> are the attributes
  \<^verbatim>\<open>class\<close>, \<^verbatim>\<open>id\<close>, \<^verbatim>\<open>href\<close> and \<^verbatim>\<open>title\<close>.
\<close>

datatype node =
    Element (tagName: string) (attributes: "(string \<times> string) list") (childNodes: "node list")
  | TextNode string
  | Markup string

fun setAttribute :: "string \<Rightarrow> string \<Rightarrow> node \<Rightarrow> node" where
  "setAttribute k v (Element t as cs) =
     Element t (if k \<in> fst ` set as then map (\<lambda>(k', v'). if k' = k then (k', v) else (k', v')) as
                else as @ [(k, v)]) cs"
| "setAttribute k v n = n"

fun appendChild :: "node \<Rightarrow> node \<Rightarrow> node" where
  "appendChild (Element t as cs) child = Element t as (cs @ [child])"
| "appendChild n child = n"

fun set_textContent :: "string \<Rightarrow> node \<Rightarrow> node" where
  "set_textContent s (Element t as cs) = Element t as (if s = [] then [] else [TextNode s])"
| "set_textContent s n = n"

fun set_innerHTML :: "string \<Rightarrow> node \<Rightarrow> node" where
  "set_innerHTML s (Element t as cs) = Element t as (if s = [] then [] else [Markup s])"
| "set_innerHTML s n = n"

fun getAttribute :: "node \<Rightarrow> string \<Rightarrow> string option" where
  "getAttribute (Element t as cs) k = map_of as k"
| "getAttribute n k = None"

text \<open>
  \<^verbatim>\<open>document.createElement\<close> throws InvalidCharacterError unless the name matches the
  Name production of XML, and lowercases the name in an HTML document.
\<close>

definition name_start_char :: "char \<Rightarrow> bool" where
  "name_start_char c =
     (let n = (of_char c :: nat)
      in (65 \<le> n \<and> n \<le> 90) \<or> (97 \<le> n \<and> n \<le> 122) \<or> n = 58 \<or> n = 95
         \<or> (192 \<le> n \<and> n \<le> 214) \<or> (216 \<le> n \<and> n \<le> 246) \<or> 248 \<le> n)"

definition name_char :: "char \<Rightarrow> bool" where
  "name_char c =
     (let n = (of_char c :: nat)
      in name_start_char c \<or> n = 45 \<or> n = 46 \<or> (48 \<le> n \<and> n \<le> 57) \<or> n = 183)"

definition ascii_lower :: "char \<Rightarrow> char" where
  "ascii_lower c =
     (let n = (of_char c :: nat) in if 65 \<le> n \<and> n \<le> 90 then char_of (n + 32) else c)"

definition document_createElement :: "string \<Rightarrow> error + node" where
  "document_createElement name =
     (if name \<noteq> [] \<and> name_start_char (hd name) \<and> list_all name_char (tl name)
      then Inr (Element (map ascii_lower name) [] [])
      else Inl InvalidCharacterError)"

text \<open>\<^verbatim>\<open>TextProcessor.createElement(tagName, localizedText, language, attributes)\<close>\<close>

definition createElement ::
  "string \<Rightarrow> jsval \<Rightarrow> string \<Rightarrow> (string \<times> string) list \<Rightarrow> error + node" where
  "createElement tag localizedText language attrs =
     (case document_createElement tag of
        Inl e \<Rightarrow> Inl e
      | Inr element \<Rightarrow>
          (let processedText = processLocalizedText localizedText language
           in Inr (fold (\<lambda>(key, v). setAttribute key v) attrs
                     (set_innerHTML processedText element))))"

subsection \<open>Outcomes\<close>

text \<open>
  A call that can throw returns \<open>error + 'a\<close>. The block renderer also writes to the
  console: its outcome pairs the warnings written so far with the result, so that the
  warnings of a pass that throws are those written before the throw.
\<close>

type_synonym 'a outcome = "string list \<times> (error + 'a)"

definition returned :: "error + 'a \<Rightarrow> 'a option outcome" where
  "returned r = ([], map_sum id Some r)"

fun elements :: "jsval \<Rightarrow> jsval list" where
  "elements (JArr xs) = xs"
| "elements _ = []"

lemma size_elements_field:
  assumes "isArray (field b k)"
  shows "size_list size (elements (field b k)) < size b"
proof (cases b)
  case (JObj kvs)
  show ?thesis
  proof (cases "field b k")
    case (JArr xs)
    with JObj have "map_of kvs k = Some (JArr xs)"
      by (auto split: option.splits)
    then have "(k, JArr xs) \<in> set kvs"
      by (rule map_of_SomeD)
    then have "size (JArr xs) \<le> size_list (size_prod (\<lambda>_. 0) size) kvs"
      by (induction kvs) auto
    then show ?thesis
      using JObj JArr by simp
  next
    case JArrayPrototype
    then show ?thesis
      using JObj by simp
  qed (use assms in auto)
qed (use assms in \<open>auto split: if_splits\<close>)

subsection \<open>Leaf blocks\<close>

text \<open>
  The three fields of \<^verbatim>\<open>renderContact\<close> run the same statements with a different
  label; \<open>contactItem\<close> is those statements, giving the entries pushed.
\<close>

definition contactItem :: "string \<Rightarrow> jsval \<Rightarrow> string \<Rightarrow> error + string list" where
  "contactItem label v language =
     (if truthy v then
        (let resolved = getLocalizedText v language
         in if truthy resolved then
              (case to_string resolved of
                 Inl e \<Rightarrow> Inl e
               | Inr s \<Rightarrow> Inr [label @ '': '' @ s])
            else Inr [])
      else Inr [])"

fun join :: "string \<Rightarrow> string list \<Rightarrow> string" where
  "join sep [] = ''''"
| "join sep [x] = x"
| "join sep (x # y # ys) = x @ sep @ join sep (y # ys)"

definition renderContact :: "string \<Rightarrow> jsval \<Rightarrow> error + node" where
  "renderContact language contact =
     (let contactDiv = setAttribute ''class'' ''cv-contact'' (Element ''div'' [] [])
      in if nullish contact then Inl TypeError else
         case contactItem ''Email'' (field contact ''email'') language of
           Inl e \<Rightarrow> Inl e
         | Inr email \<Rightarrow>
       (case contactItem ''Phone'' (field contact ''phone'') language of
           Inl e \<Rightarrow> Inl e
         | Inr phone \<Rightarrow>
       (case contactItem ''Location'' (field contact ''location'') language of
           Inl e \<Rightarrow> Inl e
         | Inr location \<Rightarrow>
             Inr (set_textContent (join '' | '' (email @ phone @ location)) contactDiv))))"

definition renderHeader :: "string \<Rightarrow> jsval \<Rightarrow> error + node" where
  "renderHeader language block =
     (let header = setAttribute ''class'' ''cv-header'' (Element ''div'' [] [])
      in if nullish block then Inl TypeError else
         case (if truthy (field block ''name'')
               then map_sum id (appendChild header)
                      (createElement ''h1'' (field block ''name'') language [(''class'', ''cv-name'')])
               else Inr header) of
           Inl e \<Rightarrow> Inl e
         | Inr header1 \<Rightarrow>
       (case (if truthy (field block ''title'')
               then map_sum id (appendChild header1)
                      (createElement ''h2'' (field block ''title'') language [(''class'', ''cv-title'')])
               else Inr header1) of
           Inl e \<Rightarrow> Inl e
         | Inr header2 \<Rightarrow>
             if truthy (field block ''contact'')
             then map_sum id (appendChild header2) (renderContact language (field block ''contact''))
             else Inr header2))"

definition renderHeading :: "string \<Rightarrow> jsval \<Rightarrow> error + node" where
  "renderHeading language block =
     (if nullish block then Inl TypeError else
      let level = (if truthy (field block ''level'') then field block ''level'' else JNum 1)
      in case to_string level of
           Inl e \<Rightarrow> Inl e
         | Inr levelString \<Rightarrow>
             (let tag = ''h'' @ levelString;
                  className =
                    (if level = JNum 1 then ''cv-name''
                     else if level = JNum 2 then ''cv-title''
                     else if level = JNum 3 then ''cv-contact''
                     else '''')
              in createElement tag (field block ''text'') language [(''class'', className)]))"

definition renderParagraph :: "string \<Rightarrow> jsval \<Rightarrow> error + node" where
  "renderParagraph language block =
     (if nullish block then Inl TypeError
      else createElement ''p'' (field block ''text'') language [(''class'', ''cv-paragraph'')])"

text \<open>The \<^verbatim>\<open>forEach\<close> over the items of a list block.\<close>

fun appendItems :: "string \<Rightarrow> jsval list \<Rightarrow> node \<Rightarrow> error + node" where
  "appendItems language [] listElement = Inr listElement"
| "appendItems language (item # items) listElement =
     (case createElement ''li'' item language [] of
        Inl e \<Rightarrow> Inl e
      | Inr listItem \<Rightarrow> appendItems language items (appendChild listElement listItem))"

definition renderList :: "string \<Rightarrow> jsval \<Rightarrow> error + node" where
  "renderList language block =
     (let listContainer = setAttribute ''class'' ''cv-list'' (Element ''div'' [] [])
      in if nullish block then Inl TypeError else
         case (if truthy (field block ''title'')
               then map_sum id (appendChild listContainer)
                      (createElement ''div'' (field block ''title'') language
                         [(''class'', ''list-title'')])
               else Inr listContainer) of
           Inl e \<Rightarrow> Inl e
         | Inr listContainer1 \<Rightarrow>
             if truthy (field block ''items'') \<and> isArray (field block ''items'')
             then map_sum id (appendChild listContainer1)
                    (appendItems language (elements (field block ''items'')) (Element ''ul'' [] []))
             else Inr listContainer1)"

definition renderDivider :: "jsval \<Rightarrow> node" where
  "renderDivider block = setAttribute ''class'' ''cv-divider'' (Element ''div'' [] [])"

text \<open>The title part of \<^verbatim>\<open>renderSection\<close>: the anchor id, the heading and its hash link.\<close>

definition sectionTitle :: "string \<Rightarrow> jsval \<Rightarrow> node \<Rightarrow> error + node" where
  "sectionTitle language block section =
     (if nullish block then Inl TypeError
      else if truthy (field block ''title'') then
        (let titleText = getLocalizedText (field block ''title'') language
         in case generateId titleText of
              Inl e \<Rightarrow> Inl e
            | Inr sectionId \<Rightarrow>
          (case createElement ''h2'' (field block ''title'') language
                  [(''class'', ''section-title'')] of
              Inl e \<Rightarrow> Inl e
            | Inr titleElement \<Rightarrow>
          (case to_string titleText of
              Inl e \<Rightarrow> Inl e
            | Inr titleString \<Rightarrow>
                (let hashLink =
                       setAttribute ''title'' (''Link to '' @ titleString)
                         (set_innerHTML ''#''
                            (setAttribute ''class'' ''section-hash-link''
                               (setAttribute ''href'' (''#'' @ sectionId) (Element ''a'' [] []))))
                 in Inr (appendChild (setAttribute ''id'' sectionId section)
                           (appendChild titleElement hashLink))))))
      else Inr section)"

definition subsectionTitle :: "string \<Rightarrow> jsval \<Rightarrow> node \<Rightarrow> error + node" where
  "subsectionTitle language block subsection =
     (if nullish block then Inl TypeError
      else if truthy (field block ''title'')
      then map_sum id (appendChild subsection)
             (createElement ''h3'' (field block ''title'') language
                [(''class'', ''subsection-title'')])
      else Inr subsection)"

subsection \<open>The recursive dispatcher\<close>

text \<open>
  \<open>renderBlock\<close>, the two container renderers it dispatches to, and the \<^verbatim>\<open>forEach\<close>
  through which they come back to it: \<open>renderEach language blocks parent\<close> renders the
  blocks in order and appends each result that is not null to \<open>parent\<close>. A throw ends
  the pass where it happens.
\<close>

function renderBlock :: "string \<Rightarrow> jsval \<Rightarrow> node option outcome"
  and renderSection :: "string \<Rightarrow> jsval \<Rightarrow> node outcome"
  and renderSubsection :: "string \<Rightarrow> jsval \<Rightarrow> node outcome"
  and renderEach :: "string \<Rightarrow> jsval list \<Rightarrow> node \<Rightarrow> node outcome"
where
  "renderBlock language block =
     (if \<not> truthy block \<or> \<not> truthy (field block ''type'') then ([], Inr None)
      else if field block ''type'' = JStr ''header'' then returned (renderHeader language block)
      else if field block ''type'' = JStr ''heading'' then returned (renderHeading language block)
      else if field block ''type'' = JStr ''paragraph'' then
        returned (renderParagraph language block)
      else if field block ''type'' = JStr ''section'' then
        (case renderSection language block of (warnings, r) \<Rightarrow> (warnings, map_sum id Some r))
      else if field block ''type'' = JStr ''subsection'' then
        (case renderSubsection language block of (warnings, r) \<Rightarrow> (warnings, map_sum id Some r))
      else if field block ''type'' = JStr ''list'' then returned (renderList language block)
      else if field block ''type'' = JStr ''divider'' then returned (Inr (renderDivider block))
      else
        (case to_string (field block ''type'') of
           Inl e \<Rightarrow> ([], Inl e)
         | Inr t \<Rightarrow> ([''Unknown block type: '' @ t], Inr None)))"
| "renderSection language block =
     (case sectionTitle language block
             (setAttribute ''class'' ''cv-section'' (Element ''div'' [] [])) of
        Inl e \<Rightarrow> ([], Inl e)
      | Inr section \<Rightarrow>
          if truthy (field block ''blocks'') \<and> isArray (field block ''blocks'')
          then renderEach language (elements (field block ''blocks'')) section
          else ([], Inr section))"
| "renderSubsection language block =
     (case subsectionTitle language block
             (setAttribute ''class'' ''cv-subsection'' (Element ''div'' [] [])) of
        Inl e \<Rightarrow> ([], Inl e)
      | Inr subsection \<Rightarrow>
          if truthy (field block ''blocks'') \<and> isArray (field block ''blocks'')
          then renderEach language (elements (field block ''blocks'')) subsection
          else ([], Inr subsection))"
| "renderEach language [] parent = ([], Inr parent)"
| "renderEach language (subBlock # rest) parent =
     (case renderBlock language subBlock of
        (warnings, Inl e) \<Rightarrow> (warnings, Inl e)
      | (warnings, Inr renderedSubBlock) \<Rightarrow>
          (case renderEach language rest
                  (case renderedSubBlock of
                     None \<Rightarrow> parent
                   | Some child \<Rightarrow> appendChild parent child) of
             (warnings', r) \<Rightarrow> (warnings @ warnings', r)))"
  by pat_completeness auto
termination
  by (relation "measure (\<lambda>x. case x of
        Inl (Inl (language, block)) \<Rightarrow> 2 * size block + 1
      | Inl (Inr (language, block)) \<Rightarrow> 2 * size block
      | Inr (Inl (language, block)) \<Rightarrow> 2 * size block
      | Inr (Inr (language, blocks, parent)) \<Rightarrow> 2 * size_list size blocks)")
     (auto dest: size_elements_field)

subsection \<open>generateTableOfContents\<close>

text \<open>
  Assigning \<^verbatim>\<open>textContent\<close> converts the value to a string, null and undefined giving
  the empty string.
\<close>

definition textContent_string :: "jsval \<Rightarrow> error + string" where
  "textContent_string v = (if v = JNull \<or> v = JUndefined then Inr '''' else to_string v)"

text \<open>
  The body of the \<^verbatim>\<open>forEach\<close>: the list item for a titled section, nothing for any
  other block. Reading \<^verbatim>\<open>block.type\<close> throws a TypeError when the block is null.
\<close>

definition tocItem :: "string \<Rightarrow> jsval \<Rightarrow> error + node option" where
  "tocItem language block =
     (if nullish block then Inl TypeError
      else if field block ''type'' = JStr ''section'' \<and> truthy (field block ''title'') then
        (let titleText = getLocalizedText (field block ''title'') language
         in case generateId titleText of
              Inl e \<Rightarrow> Inl e
            | Inr sectionId \<Rightarrow>
          (case textContent_string titleText of
              Inl e \<Rightarrow> Inl e
            | Inr label \<Rightarrow>
                (let tocLink =
                       setAttribute ''class'' ''toc-link''
                         (set_textContent label
                            (setAttribute ''href'' (''#'' @ sectionId) (Element ''a'' [] [])))
                 in Inr (Some (appendChild
                                 (setAttribute ''class'' ''toc-item'' (Element ''li'' [] []))
                                 tocLink)))))
      else Inr None)"

fun tocEach :: "string \<Rightarrow> jsval list \<Rightarrow> node \<Rightarrow> error + node" where
  "tocEach language [] tocList = Inr tocList"
| "tocEach language (block # blocks) tocList =
     (case tocItem language block of
        Inl e \<Rightarrow> Inl e
      | Inr None \<Rightarrow> tocEach language blocks tocList
      | Inr (Some item) \<Rightarrow> tocEach language blocks (appendChild tocList item))"

text \<open>
  \<^verbatim>\<open>cvData.blocks.forEach\<close> is a function only when \<^verbatim>\<open>blocks\<close> is an array: on any
  other truthy value the call throws a TypeError. The result \<open>None\<close> is \<^verbatim>\<open>null\<close>.
\<close>

definition generateTableOfContents :: "string \<Rightarrow> jsval \<Rightarrow> error + node option" where
  "generateTableOfContents language cvData =
     (if \<not> truthy cvData \<or> \<not> truthy (field cvData ''blocks'') then Inr None
      else
        (let tocContainer = setAttribute ''class'' ''cv-toc'' (Element ''div'' [] []);
             tocTitle = setAttribute ''class'' ''toc-title''
                          (set_textContent ''Table of Contents'' (Element ''h3'' [] []));
             tocContainer1 = appendChild tocContainer tocTitle;
             tocList = setAttribute ''class'' ''toc-list'' (Element ''ul'' [] [])
         in if isArray (field cvData ''blocks'') then
              (case tocEach language (elements (field cvData ''blocks'')) tocList of
                 Inl e \<Rightarrow> Inl e
               | Inr tocList1 \<Rightarrow> Inr (Some (appendChild tocContainer1 tocList1)))
            else Inl TypeError))"

subsection \<open>renderCV\<close>

record rendered =
  toc :: "node option"
  content :: node

definition renderCV :: "string \<Rightarrow> jsval \<Rightarrow> rendered outcome" where
  "renderCV language cvData =
     (if \<not> truthy cvData \<or> \<not> truthy (field cvData ''blocks'') then ([], Inl InvalidCVData)
      else
        (case generateTableOfContents language cvData of
           Inl e \<Rightarrow> ([], Inl e)
         | Inr tocElement \<Rightarrow>
             (let cvContainer = setAttribute ''class'' ''cv-document'' (Element ''div'' [] [])
              in case (if isArray (field cvData ''blocks'')
                       then renderEach language (elements (field cvData ''blocks'')) cvContainer
                       else ([], Inr cvContainer)) of
                   (warnings, Inl e) \<Rightarrow> (warnings, Inl e)
                 | (warnings, Inr cvContainer1) \<Rightarrow>
                     (warnings, Inr \<lparr>toc = tocElement, content = cvContainer1\<rparr>))))"

definition validateCVData :: "jsval \<Rightarrow> bool" where
  "validateCVData cvData =
     (if \<not> truthy cvData then False
      else if \<not> truthy (field cvData ''blocks'') \<or> \<not> isArray (field cvData ''blocks'') then False
      else True)"

section \<open>Notions used to state the properties\<close>

text \<open>The case labels of the \<^verbatim>\<open>switch\<close> in \<open>renderBlock\<close>.\<close>

definition recognized_types :: "string list" where
  "recognized_types =
     [''header'', ''heading'', ''paragraph'', ''section'', ''subsection'', ''list'', ''divider'']"

text \<open>
  The children that a container appends: the results of \<open>renderBlock\<close> on the blocks, in
  the order of the blocks, without those that are null.
\<close>

definition rendered_children :: "string \<Rightarrow> jsval list \<Rightarrow> node list" where
  "rendered_children language blocks =
     List.map_filter (\<lambda>b. case snd (renderBlock language b) of Inr r \<Rightarrow> r | Inl e \<Rightarrow> None)
       blocks"

text \<open>The entries of the outline: the list items of the titled sections, in order.\<close>

definition outline_entries :: "string \<Rightarrow> jsval list \<Rightarrow> node list" where
  "outline_entries language blocks =
     List.map_filter (\<lambda>b. case tocItem language b of Inr r \<Rightarrow> r | Inl e \<Rightarrow> None) blocks"








section \<open>Properties of getLocalizedText\<close>

lemma set_first_bound: "set (first_bound ks) = set ks"
  by (induction ks) auto

lemma filter_first_bound_id:
  "list_all P ks \<Longrightarrow> filter P (first_bound ks) = first_bound ks"
  by (simp add: list_all_iff filter_id_conv set_first_bound)

lemma filter_first_bound_none:
  "list_all (\<lambda>k. \<not> P k) ks \<Longrightarrow> filter P (first_bound ks) = []"
  by (simp add: list_all_iff filter_empty_conv set_first_bound)

lemma keys_language_mapping:
  assumes "language_mapping kvs"
  shows "keys (JObj kvs) = first_bound (map fst kvs)"
proof -
  from assms have "list_all (\<lambda>k. \<not> is_array_index k) (map fst kvs)"
    by (auto simp: language_mapping_def list_all_iff)
  then show ?thesis
    by (simp add: filter_first_bound_none filter_first_bound_id)
qed

lemma language_mapping_lookup:
  "language_mapping kvs \<Longrightarrow> map_of kvs k = Some v \<Longrightarrow> is_string v"
  by (induction kvs) (auto simp: language_mapping_def split: if_splits)

lemma is_string_conv: "is_string v \<longleftrightarrow> (\<exists>s. v = JStr s)"
  by (cases v) auto

lemma object_inherited_other:
  "L \<notin> set object_prototype_members \<Longrightarrow> object_inherited L = JUndefined"
  by (auto simp: object_inherited_def object_prototype_members_def)

lemma getLocalizedText_mapping:
  assumes "L \<notin> set object_prototype_members" and "language_mapping kvs"
  shows "getLocalizedText (JObj kvs) L =
           (if truthy (field (JObj kvs) L) then field (JObj kvs) L
            else if kvs = [] then JStr '''' else snd (hd kvs))"
proof -
  have idx: "index (JObj kvs) L = field (JObj kvs) L"
    using assms(1) by (simp add: object_inherited_other split: option.splits)
  show ?thesis
  proof (cases kvs)
    case Nil
    then show ?thesis
      using assms(1) by (simp add: getLocalizedText_def object_inherited_other)
  next
    case (Cons kv rest)
    obtain k v where kv: "kv = (k, v)" by (cases kv)
    have "keys (JObj kvs) = k # filter (\<lambda>x. x \<noteq> k) (first_bound (map fst rest))"
      using keys_language_mapping[OF assms(2)] Cons kv by simp
    then show ?thesis
      using Cons kv idx by (simp add: getLocalizedText_def Let_def)
  qed
qed

lemma getLocalizedText_mapping_string:
  assumes "L \<notin> set object_prototype_members" and "language_mapping kvs"
  shows "\<exists>t. getLocalizedText (JObj kvs) L = JStr t"
proof (cases "truthy (field (JObj kvs) L)")
  case True
  then obtain v where "map_of kvs L = Some v"
    by (auto split: option.splits)
  then show ?thesis
    using getLocalizedText_mapping[OF assms] True language_mapping_lookup[OF assms(2)]
    by (auto simp: is_string_conv)
next
  case False
  show ?thesis
  proof (cases kvs)
    case Nil
    then show ?thesis
      using getLocalizedText_mapping[OF assms] by simp
  next
    case (Cons kv rest)
    then have "is_string (snd kv)"
      using assms(2) by (auto simp: language_mapping_def)
    then show ?thesis
      using getLocalizedText_mapping[OF assms] False Cons by (auto simp: is_string_conv)
  qed
qed

text \<open>
  C1, as the code has it. Resolution cannot fail: \<open>getLocalizedText\<close> is a total function
  with no error result. A plain string is returned verbatim whatever the language, and
  an absent value gives the empty string. For a mapping of language codes to strings
  and a language \<open>L\<close> that names no member inherited from \<^verbatim>\<open>Object.prototype\<close>, the
  result is a string: it is the value under \<open>L\<close> when the mapping has the key \<open>L\<close> with
  a non-empty value, and otherwise (key missing, or its value the empty string) the value
  of the first key in insertion order, or the empty string when the mapping is empty.
\<close>

theorem getLocalizedText_resolves:
  assumes "L \<notin> set object_prototype_members" and "language_mapping kvs"
  shows "getLocalizedText (JStr s) L' = JStr s
       \<and> getLocalizedText JUndefined L' = JStr ''''
       \<and> getLocalizedText JNull L' = JStr ''''
       \<and> getLocalizedText (JObj []) L = JStr ''''
       \<and> (\<exists>t. getLocalizedText (JObj kvs) L = JStr t)
       \<and> getLocalizedText (JObj kvs) L =
             (if truthy (field (JObj kvs) L) then field (JObj kvs) L
              else if kvs = [] then JStr '''' else snd (hd kvs))"
proof -
  have plain: "getLocalizedText (JStr s) L' = JStr s"
    by (simp add: getLocalizedText_def)
  have absent: "getLocalizedText JUndefined L' = JStr ''''" "getLocalizedText JNull L' = JStr ''''"
    by (simp_all add: getLocalizedText_def)
  have empty: "getLocalizedText (JObj []) L = JStr ''''"
    using assms(1) by (simp add: getLocalizedText_def object_inherited_other)
  show ?thesis
    using plain absent empty getLocalizedText_mapping_string[OF assms]
      getLocalizedText_mapping[OF assms]
    by blast
qed

theorem getLocalizedText_resolves_witness:
  "''de'' \<notin> set object_prototype_members
   \<and> language_mapping [(''fr'', JStr ''Bonjour''), (''es'', JStr ''Hola'')]
   \<and> getLocalizedText (JStr ''Hello'') ''fr'' = JStr ''Hello''
   \<and> getLocalizedText (JObj [(''fr'', JStr ''Bonjour''), (''es'', JStr ''Hola'')]) ''de''
       = JStr ''Bonjour''"
proof -
  have a: "''de'' \<notin> set object_prototype_members"
    by (simp add: object_prototype_members_def)
  have b: "language_mapping [(''fr'', JStr ''Bonjour''), (''es'', JStr ''Hola'')]"
    by (simp add: language_mapping_def is_array_index_def is_digit_def)
  show ?thesis
    using a b getLocalizedText_resolves[OF a b, of "''Hello''" "''fr''"] by simp
qed

text \<open>
  The claim as written promises \<^verbatim>\<open>v[L]\<close> whenever the key \<open>L\<close> is present. The guard
  \<^verbatim>\<open>if (localizedText[language])\<close> tests the value, not the key: a present key with an
  empty value falls through to the first key.
\<close>

theorem getLocalizedText_present_empty_counterexample:
  "language_mapping [(''fr'', JStr ''Bonjour''), (''en'', JStr '''')]
   \<and> map_of [(''fr'', JStr ''Bonjour''), (''en'', JStr '''')] ''en'' = Some (JStr '''')
   \<and> getLocalizedText (JObj [(''fr'', JStr ''Bonjour''), (''en'', JStr '''')]) ''en''
       = JStr ''Bonjour''"
  by (simp add: getLocalizedText_def language_mapping_def is_array_index_def is_digit_def
      object_prototype_members_def)

section \<open>Properties of generateId\<close>

text \<open>
  After white space has become hyphens, the final \<^verbatim>\<open>trim()\<close> finds no white space to
  remove: \<open>generateId\<close> never trims, and hyphens at either end stay.
\<close>

lemma set_replace_runs: "set (replace_runs P s) \<subseteq> insert CHR ''-'' {c \<in> set s. \<not> P c}"
proof (induction P s rule: replace_runs.induct)
  case (1 P)
  then show ?case by simp
next
  case (2 P c cs)
  have "set (dropWhile P cs) \<subseteq> set cs"
    by (auto dest: set_dropWhileD)
  with 2 show ?case by auto
qed

lemma trim_no_space:
  assumes "\<forall>c \<in> set s. \<not> is_space c"
  shows "trim s = s"
proof -
  have keep: "dropWhile is_space xs = xs" if "\<forall>c \<in> set xs. \<not> is_space c" for xs
    using that by (cases xs) auto
  have "dropWhile is_space s = s"
    using assms by (rule keep)
  moreover have "dropWhile is_space (rev s) = rev s"
    using assms by (intro keep) simp
  ultimately show ?thesis
    by (simp add: trim_def)
qed

lemma generateId_never_trims:
  "generateId (JStr s) =
     Inr (replace_runs (\<lambda>c. c = CHR ''-'') (replace_runs is_space (strip_unsafe (toLowerCase s))))"
proof -
  let ?t = "replace_runs is_space (strip_unsafe (toLowerCase s))"
  have hyphen: "\<not> is_space CHR ''-''"
    by (simp add: is_space_def)
  have "\<forall>c \<in> set ?t. \<not> is_space c"
    using set_replace_runs [of is_space "strip_unsafe (toLowerCase s)"] hyphen by auto
  then have "\<forall>c \<in> set (replace_runs (\<lambda>c. c = CHR ''-'') ?t). \<not> is_space c"
    using set_replace_runs [of "\<lambda>c. c = CHR ''-''" ?t] hyphen by auto
  then have untouched: "trim (replace_runs (\<lambda>c. c = CHR ''-'') ?t) = replace_runs (\<lambda>c. c = CHR ''-'') ?t"
    by (rule trim_no_space)
  show ?thesis
  proof (cases "s = []")
    case True
    then show ?thesis
      by (simp add: generateId_def strip_unsafe_def toLowerCase_def)
  next
    case False
    then show ?thesis
      using untouched by (simp add: generateId_def)
  qed
qed

text \<open>
  C2. The first and the third example of the claim hold. The second does not: on white
  space only, the identifier is a hyphen, not the empty string, and white space around a
  title leaves a hyphen at each end.
\<close>

theorem generateId_examples:
  "generateId (JStr ''Work Experience!!'') = Inr ''work-experience''
   \<and> generateId (JStr ''A -- B'') = Inr ''a-b''
   \<and> generateId (JStr ''  '') = Inr ''-''
   \<and> generateId (JStr '' Skills '') = Inr ''-skills-''"
  by code_simp

section \<open>Properties of the leaf renderers\<close>

lemma field_not_nullish: "field b k \<noteq> JUndefined \<Longrightarrow> \<not> nullish b"
  by (cases b) auto

lemma truthy_field_not_nullish: "truthy (field b k) \<Longrightarrow> \<not> nullish b"
  by (cases b) auto

lemma document_createElement_fixed:
  "document_createElement ''div'' = Inr (Element ''div'' [] [])"
  "document_createElement ''h1'' = Inr (Element ''h1'' [] [])"
  "document_createElement ''h2'' = Inr (Element ''h2'' [] [])"
  "document_createElement ''h3'' = Inr (Element ''h3'' [] [])"
  "document_createElement ''p'' = Inr (Element ''p'' [] [])"
  "document_createElement ''li'' = Inr (Element ''li'' [] [])"
  by (simp_all add: document_createElement_def name_start_char_def name_char_def
      ascii_lower_def)

lemma getLocalizedText_LocalizedText:
  assumes "L \<notin> set object_prototype_members" and "is_LocalizedText v"
  shows "\<exists>s. getLocalizedText v L = JStr s"
proof (cases v)
  case (JObj kvs)
  then show ?thesis
    using assms getLocalizedText_mapping_string by simp
qed (use assms in \<open>simp_all add: getLocalizedText_def\<close>)

lemma contactItem_resolved:
  "contactItem label v L =
     (if truthy (getLocalizedText v L)
      then map_sum id (\<lambda>s. [label @ '': '' @ s]) (to_string (getLocalizedText v L))
      else Inr [])"
proof (cases "truthy v")
  case True
  then show ?thesis
    by (simp add: contactItem_def Let_def split: sum.splits)
next
  case False
  then show ?thesis
    by (simp add: contactItem_def getLocalizedText_def)
qed

lemma contactItem_LocalizedText:
  assumes "L \<notin> set object_prototype_members" and "is_LocalizedText v"
  shows "contactItem label v L =
           Inr (case getLocalizedText v L of
                  JStr s \<Rightarrow> if s = [] then [] else [label @ '': '' @ s]
                | _ \<Rightarrow> [])"
proof -
  obtain s where "getLocalizedText v L = JStr s"
    using getLocalizedText_LocalizedText[OF assms] by blast
  then show ?thesis
    by (simp add: contactItem_resolved)
qed

text \<open>
  C10, as the code has it. Let the language name no member inherited from
  \<^verbatim>\<open>Object.prototype\<close>, and let the three contact fields be LocalizedText values,
  present or absent. On a contact that is null or undefined the renderer throws.
  On any other contact, the contact line is the join of the entries \<^verbatim>\<open>Label: text\<close> of
  exactly those fields whose resolved text is a non-empty string, in the order email,
  phone, location. What a field contributes depends on its resolved text alone, so a
  field that is present and resolves to the empty string is left out as an absent field
  is.
\<close>

theorem renderContact_omits_empty:
  assumes "L \<notin> set object_prototype_members"
    and "\<forall>f \<in> set [''email'', ''phone'', ''location'']. is_LocalizedText (field contact f)"
  shows "renderContact L contact =
           (if nullish contact then Inl TypeError
            else Inr (set_textContent
                  (join '' | ''
                     (concat (map (\<lambda>(label, f).
                                case getLocalizedText (field contact f) L of
                                  JStr s \<Rightarrow> if s = [] then [] else [label @ '': '' @ s]
                                | _ \<Rightarrow> [])
                        [(''Email'', ''email''), (''Phone'', ''phone''),
                         (''Location'', ''location'')])))
                  (Element ''div'' [(''class'', ''cv-contact'')] [])))
         \<and> (\<forall>label v. getLocalizedText v L = JStr '''' \<longrightarrow>
               contactItem label v L = Inr [] \<and> contactItem label JUndefined L = Inr [])"
proof -
  have "contactItem label (field contact f) L =
          Inr (case getLocalizedText (field contact f) L of
                 JStr s \<Rightarrow> if s = [] then [] else [label @ '': '' @ s]
               | _ \<Rightarrow> [])"
    if "f \<in> set [''email'', ''phone'', ''location'']" for label f
    using that assms by (intro contactItem_LocalizedText) auto
  then have line: "renderContact L contact =
           (if nullish contact then Inl TypeError
            else Inr (set_textContent
                  (join '' | ''
                     (concat (map (\<lambda>(label, f).
                                case getLocalizedText (field contact f) L of
                                  JStr s \<Rightarrow> if s = [] then [] else [label @ '': '' @ s]
                                | _ \<Rightarrow> [])
                        [(''Email'', ''email''), (''Phone'', ''phone''),
                         (''Location'', ''location'')])))
                  (Element ''div'' [(''class'', ''cv-contact'')] [])))"
    by (simp add: renderContact_def)
  have "contactItem label v L = Inr [] \<and> contactItem label JUndefined L = Inr []"
    if "getLocalizedText v L = JStr ''''" for label v
    using that by (simp add: contactItem_resolved) (simp add: getLocalizedText_def)
  with line show ?thesis
    by blast
qed

theorem renderContact_omits_empty_witness:
  "renderContact ''en''
     (JObj [(''email'', JStr ''a@b.c''), (''phone'', JObj [(''en'', JStr '''')])]) =
   Inr (Element ''div'' [(''class'', ''cv-contact'')] [TextNode ''Email: a@b.c''])
   \<and> renderContact ''en'' (JObj [(''email'', JStr ''a@b.c'')]) =
   Inr (Element ''div'' [(''class'', ''cv-contact'')] [TextNode ''Email: a@b.c''])"
proof -
  have a: "''en'' \<notin> set object_prototype_members"
    by (simp add: object_prototype_members_def)
  have m: "language_mapping [(''en'', JStr '''')]"
    by (simp add: language_mapping_def is_array_index_def is_digit_def)
  have b: "\<forall>f \<in> set [''email'', ''phone'', ''location''].
             is_LocalizedText
               (field (JObj [(''email'', JStr ''a@b.c''), (''phone'', JObj [(''en'', JStr '''')])]) f)"
    using m by simp
  have c: "\<forall>f \<in> set [''email'', ''phone'', ''location''].
             is_LocalizedText (field (JObj [(''email'', JStr ''a@b.c'')]) f)"
    by simp
  have r: "getLocalizedText (JObj [(''en'', JStr '''')]) ''en'' = JStr ''''"
    using a by (simp add: getLocalizedText_def is_array_index_def is_digit_def)
  show ?thesis
    using renderContact_omits_empty [OF a b] renderContact_omits_empty [OF a c] r
    by (simp add: getLocalizedText_def)
qed

text \<open>
  The claim as written holds for no language that names an inherited member. Under the
  language \<^verbatim>\<open>constructor\<close> the empty mapping, a LocalizedText value, resolves to the
  function \<^verbatim>\<open>Object\<close>, which is truthy and not a string, and the field contributes an
  entry.
\<close>

theorem renderContact_inherited_counterexample:
  "is_LocalizedText (field (JObj [(''email'', JObj [])]) ''email'')
   \<and> getLocalizedText (field (JObj [(''email'', JObj [])]) ''email'') ''constructor'' =
       JFunction ''Object''
   \<and> renderContact ''constructor'' (JObj [(''email'', JObj [])]) =
       Inr (Element ''div'' [(''class'', ''cv-contact'')]
              [TextNode ''Email: function Object() { [native code] }''])"
  by (simp add: renderContact_def contactItem_def getLocalizedText_def object_inherited_def
      language_mapping_def)

lemma appendItems_all:
  "appendItems L its (Element t as cs) =
     Inr (Element t as
            (cs @ map (\<lambda>item. Element ''li'' []
                         (if processLocalizedText item L = [] then []
                          else [Markup (processLocalizedText item L)])) its))"
  by (induction its arbitrary: cs)
     (simp_all add: createElement_def document_createElement_fixed Let_def)

text \<open>
  C8, as the code has it. Whenever \<^verbatim>\<open>items\<close> is an array, the output is the title
  (when given) followed by an unordered-list element that holds one list item for each
  entry, in order: for the empty array the list element is empty, and it is appended all
  the same. The list element is left out only when \<^verbatim>\<open>items\<close> is absent or not an
  array. On a block that is null or undefined the renderer throws.
\<close>

theorem renderList_empty_items:
  fixes block :: jsval and L :: string
  defines "titleNodes \<equiv>
     (if truthy (field block ''title'')
      then [Element ''div'' [(''class'', ''list-title'')]
              (if processLocalizedText (field block ''title'') L = [] then []
               else [Markup (processLocalizedText (field block ''title'') L)])]
      else [])"
  shows "(isArray (field block ''items'') \<longrightarrow>
            renderList L block =
              Inr (Element ''div'' [(''class'', ''cv-list'')]
                     (titleNodes @
                      [Element ''ul'' []
                         (map (\<lambda>item. Element ''li'' []
                                 (if processLocalizedText item L = [] then []
                                  else [Markup (processLocalizedText item L)]))
                            (elements (field block ''items'')))])))
       \<and> (field block ''items'' = JArr [] \<longrightarrow>
            renderList L block =
              Inr (Element ''div'' [(''class'', ''cv-list'')] (titleNodes @ [Element ''ul'' [] []])))
       \<and> (\<not> nullish block \<and> \<not> isArray (field block ''items'') \<longrightarrow>
            renderList L block = Inr (Element ''div'' [(''class'', ''cv-list'')] titleNodes))
       \<and> (nullish block \<longrightarrow> renderList L block = Inl TypeError)"
proof -
  have arrays: "renderList L block =
              Inr (Element ''div'' [(''class'', ''cv-list'')]
                     (titleNodes @
                      [Element ''ul'' []
                         (map (\<lambda>item. Element ''li'' []
                                 (if processLocalizedText item L = [] then []
                                  else [Markup (processLocalizedText item L)]))
                            (elements (field block ''items'')))]))"
    if a: "isArray (field block ''items'')"
  proof -
    have "field block ''items'' \<noteq> JUndefined"
      using a by auto
    then have nn: "\<not> nullish block"
      by (rule field_not_nullish)
    have "truthy (field block ''items'')"
      using a by (cases "field block ''items''") auto
    then show ?thesis
      using a nn
      by (simp add: renderList_def createElement_def document_createElement_fixed
          titleNodes_def Let_def appendItems_all)
  qed
  have empty: "renderList L block =
              Inr (Element ''div'' [(''class'', ''cv-list'')] (titleNodes @ [Element ''ul'' [] []]))"
    if "field block ''items'' = JArr []"
    using that arrays by simp
  have other: "renderList L block = Inr (Element ''div'' [(''class'', ''cv-list'')] titleNodes)"
    if "\<not> nullish block \<and> \<not> isArray (field block ''items'')"
    using that
    by (simp add: renderList_def createElement_def document_createElement_fixed
        titleNodes_def Let_def)
  have thrown: "renderList L block = Inl TypeError" if "nullish block"
    using that by (simp add: renderList_def)
  show ?thesis
    using arrays empty other thrown by blast
qed

theorem renderList_empty_items_witness:
  "renderList ''en'' (JObj [(''type'', JStr ''list''), (''items'', JArr [])]) =
     Inr (Element ''div'' [(''class'', ''cv-list'')] [Element ''ul'' [] []])
   \<and> renderList ''en''
       (JObj [(''type'', JStr ''list''), (''items'', JArr [JStr ''Go'', JStr ''Rust''])]) =
     Inr (Element ''div'' [(''class'', ''cv-list'')]
            [Element ''ul'' []
               [Element ''li'' [] [Markup ''Go''], Element ''li'' [] [Markup ''Rust'']]])
   \<and> renderList ''en'' (JObj [(''type'', JStr ''list''), (''title'', JStr ''Skills'')]) =
     Inr (Element ''div'' [(''class'', ''cv-list'')]
            [Element ''div'' [(''class'', ''list-title'')] [Markup ''Skills'']])"
  using renderList_empty_items [of "JObj [(''type'', JStr ''list''), (''items'', JArr [])]" "''en''"]
    renderList_empty_items
      [of "JObj [(''type'', JStr ''list''), (''items'', JArr [JStr ''Go'', JStr ''Rust''])]" "''en''"]
    renderList_empty_items [of "JObj [(''type'', JStr ''list''), (''title'', JStr ''Skills'')]" "''en''"]
  by (simp add: processLocalizedText_def processText_def getLocalizedText_def
      replace_bold_def replace_underline_def match_markup_def)

text \<open>
  The claim as written has the title alone for an empty \<^verbatim>\<open>items\<close>; the code appends
  the empty list element after it.
\<close>

theorem renderList_empty_items_counterexample:
  "renderList ''en''
     (JObj [(''type'', JStr ''list''), (''title'', JStr ''Skills''), (''items'', JArr [])]) =
   Inr (Element ''div'' [(''class'', ''cv-list'')]
          [Element ''div'' [(''class'', ''list-title'')] [Markup ''Skills''],
           Element ''ul'' [] []])
   \<and> renderList ''en''
     (JObj [(''type'', JStr ''list''), (''title'', JStr ''Skills''), (''items'', JArr [])]) \<noteq>
   Inr (Element ''div'' [(''class'', ''cv-list'')]
          [Element ''div'' [(''class'', ''list-title'')] [Markup ''Skills'']])"
  by code_simp

section \<open>Properties of the dispatcher\<close>

declare renderBlock.simps [simp del] renderSection.simps [simp del]
  renderSubsection.simps [simp del]

lemma foldl_appendChild_Element:
  "foldl appendChild (Element t as cs) ns = Element t as (cs @ ns)"
  by (induction ns arbitrary: cs) auto

lemma renderEach_append:
  "renderEach L (xs @ ys) parent =
     (case renderEach L xs parent of
        (w, Inl e) \<Rightarrow> (w, Inl e)
      | (w, Inr parent1) \<Rightarrow> (case renderEach L ys parent1 of (w', r) \<Rightarrow> (w @ w', r)))"
proof (induction xs arbitrary: parent)
  case Nil
  then show ?case by (simp split: prod.splits)
next
  case (Cons x xs)
  then show ?case
    by (auto split: prod.splits sum.splits option.splits)
qed

lemma renderEach_skips_null:
  assumes "snd (renderBlock L b) = Inr None"
  shows "snd (renderEach L (xs @ b # ys) parent) = snd (renderEach L (xs @ ys) parent)"
proof -
  obtain w where b: "renderBlock L b = (w, Inr None)"
    using assms by (cases "renderBlock L b") auto
  have step: "renderEach L (b # ys) p = (w @ fst (renderEach L ys p), snd (renderEach L ys p))"
    for p
    using b by (simp split: prod.splits)
  show ?thesis
    by (auto simp: renderEach_append step simp del: renderEach.simps
        split: prod.splits sum.splits)
qed

lemma renderEach_results:
  assumes "\<forall>b \<in> set bs. \<exists>r. snd (renderBlock L b) = Inr r"
  shows "renderEach L bs parent =
           (concat (map (\<lambda>b. fst (renderBlock L b)) bs),
            Inr (foldl appendChild parent (rendered_children L bs)))"
  using assms
proof (induction bs arbitrary: parent)
  case Nil
  then show ?case by (simp add: rendered_children_def List.map_filter_simps)
next
  case (Cons b bs)
  then obtain w r where b: "renderBlock L b = (w, Inr r)"
    by (cases "renderBlock L b") auto
  have rest: "\<forall>b \<in> set bs. \<exists>r. snd (renderBlock L b) = Inr r"
    using Cons.prems by simp
  have children: "rendered_children L (b # bs) =
      (case r of None \<Rightarrow> [] | Some n \<Rightarrow> [n]) @ rendered_children L bs"
    using b by (simp add: rendered_children_def List.map_filter_simps split: option.splits)
  show ?case
    using b Cons.IH [OF rest] children by (simp split: option.splits)
qed

lemma renderBlock_falsy_type:
  "\<not> truthy (field block ''type'') \<Longrightarrow> renderBlock L block = ([], Inr None)"
  by (simp add: renderBlock.simps)

lemma renderBlock_unknown_string:
  assumes "field block ''type'' = JStr t" and "t \<notin> set recognized_types"
  shows "renderBlock L block = ((if t = [] then [] else [''Unknown block type: '' @ t]), Inr None)"
proof -
  have "truthy block"
    using assms(1) by (cases block) auto
  then show ?thesis
    using assms by (auto simp: renderBlock.simps [of L block] recognized_types_def)
qed

lemma tocItem_other:
  "block = JObj kvs \<Longrightarrow> field block ''type'' \<noteq> JStr ''section'' \<Longrightarrow> tocItem L block = Inr None"
  by (simp add: tocItem_def)

lemma tocEach_skips_null:
  "tocItem L b = Inr None \<Longrightarrow> tocEach L (xs @ b # ys) tocList = tocEach L (xs @ ys) tocList"
  by (induction xs arbitrary: tocList) (auto split: sum.splits option.splits)

lemma renderCV_skips_null:
  assumes "snd (renderBlock L b) = Inr None" and "tocItem L b = Inr None"
  shows "snd (renderCV L (JObj [(''blocks'', JArr (xs @ b # ys))])) =
         snd (renderCV L (JObj [(''blocks'', JArr (xs @ ys))]))"
proof -
  have "snd (renderEach L (xs @ b # ys) p) = snd (renderEach L (xs @ ys) p)" for p
    using assms(1) by (rule renderEach_skips_null)
  then have "(\<forall>w e. renderEach L (xs @ b # ys) p = (w, Inl e) \<longrightarrow>
                 (\<exists>w'. renderEach L (xs @ ys) p = (w', Inl e)))
           \<and> (\<forall>w c. renderEach L (xs @ b # ys) p = (w, Inr c) \<longrightarrow>
                 (\<exists>w'. renderEach L (xs @ ys) p = (w', Inr c)))" for p
    by (metis snd_conv surjective_pairing)
  then show ?thesis
    using tocEach_skips_null [OF assms(2)]
    by (fastforce simp: renderCV_def generateTableOfContents_def Let_def
        split: sum.splits prod.splits)
qed

text \<open>
  C9, as the code has it. A block whose type is a string other than the seven case
  labels renders to null without a throw; the warning \<^verbatim>\<open>Unknown block type: t\<close> is
  written when the string is not empty, and nothing is written when it is empty. A block
  with no type renders to null without a warning as well. In both cases the block adds
  nothing to the output: the result of rendering the enclosing sequence, in a container
  or in the whole document, is what it is without the block.
\<close>

theorem renderBlock_unknown_type:
  assumes "field block ''type'' = JStr t" and "t \<notin> set recognized_types"
    and "map_of kvs ''type'' = None"
  shows "renderBlock L block =
           ((if t = [] then [] else [''Unknown block type: '' @ t]), Inr None)
       \<and> renderBlock L (JObj kvs) = ([], Inr None)
       \<and> snd (renderEach L (before @ block # after) parent) =
           snd (renderEach L (before @ after) parent)
       \<and> snd (renderEach L (before @ JObj kvs # after) parent) =
           snd (renderEach L (before @ after) parent)
       \<and> snd (renderCV L (JObj [(''blocks'', JArr (before @ block # after))])) =
           snd (renderCV L (JObj [(''blocks'', JArr (before @ after))]))
       \<and> snd (renderCV L (JObj [(''blocks'', JArr (before @ JObj kvs # after))])) =
           snd (renderCV L (JObj [(''blocks'', JArr (before @ after))]))"
proof -
  have unknown: "renderBlock L block =
      ((if t = [] then [] else [''Unknown block type: '' @ t]), Inr None)"
    using assms(1,2) by (rule renderBlock_unknown_string)
  have untyped: "renderBlock L (JObj kvs) = ([], Inr None)"
    using assms(3) by (simp add: renderBlock_falsy_type)
  obtain kvs' where obj: "block = JObj kvs'"
    using assms(1) by (cases block) auto
  have "t \<noteq> ''section''"
    using assms(2) by (auto simp: recognized_types_def)
  then have toc1: "tocItem L block = Inr None"
    using obj assms(1) by (intro tocItem_other) auto
  have toc2: "tocItem L (JObj kvs) = Inr None"
    using assms(3) by (intro tocItem_other) auto
  show ?thesis
    using unknown untyped renderEach_skips_null [of L block] renderEach_skips_null [of L "JObj kvs"]
      renderCV_skips_null [of L block] renderCV_skips_null [of L "JObj kvs"] toc1 toc2
    by simp
qed

theorem renderBlock_unknown_type_witness:
  "renderBlock ''en'' (JObj [(''type'', JStr ''timeline'')]) =
     ([''Unknown block type: timeline''], Inr None)
   \<and> snd (renderCV ''en'' (JObj [(''blocks'', JArr
            [JObj [(''type'', JStr ''divider'')], JObj [(''type'', JStr ''timeline'')],
             JObj [(''type'', JStr ''paragraph''), (''text'', JStr ''next'')]])])) =
     snd (renderCV ''en'' (JObj [(''blocks'', JArr
            [JObj [(''type'', JStr ''divider'')],
             JObj [(''type'', JStr ''paragraph''), (''text'', JStr ''next'')]])]))"
proof -
  have a: "field (JObj [(''type'', JStr ''timeline'')]) ''type'' = JStr ''timeline''"
    by simp
  have b: "''timeline'' \<notin> set recognized_types"
    by (simp add: recognized_types_def)
  have c: "map_of ([] :: (string \<times> jsval) list) ''type'' = None"
    by simp
  show ?thesis
    using renderBlock_unknown_type [OF a b c, of "''en''" "[JObj [(''type'', JStr ''divider'')]]"
        "[JObj [(''type'', JStr ''paragraph''), (''text'', JStr ''next'')]]"]
    by simp
qed

text \<open>
  The claim as written has a diagnostic for every type outside the seven. The empty
  string is such a type, and a block without a type has none of the seven: both are
  caught by the guard before the \<^verbatim>\<open>switch\<close> and render to null in silence.
\<close>

theorem renderBlock_silent_counterexample:
  "field (JObj [(''type'', JStr '''')]) ''type'' \<notin> JStr ` set recognized_types
   \<and> renderBlock ''en'' (JObj [(''type'', JStr '''')]) = ([], Inr None)
   \<and> renderBlock ''en'' (JObj [(''title'', JStr ''no type'')]) = ([], Inr None)"
  by (simp add: renderBlock.simps recognized_types_def)

text \<open>
  C7. Let the children of a section (or subsection) block all render without a throw.
  Then the container is the title part followed by the results of \<open>renderBlock\<close> on the
  children, in the order of the input and without the null results; without a title the
  children are all there is. \<open>renderBlock\<close> on a section or subsection is the container
  renderer, so the same dispatcher serves every depth.
\<close>

theorem renderSection_children:
  assumes "field block ''blocks'' = JArr bs"
    and "\<forall>b \<in> set bs. \<exists>r. snd (renderBlock L b) = Inr r"
  shows "(\<forall>section. sectionTitle L block (Element ''div'' [(''class'', ''cv-section'')] []) =
                      Inr section \<longrightarrow>
            snd (renderSection L block) =
              Inr (foldl appendChild section (rendered_children L bs)))
       \<and> (\<not> truthy (field block ''title'') \<longrightarrow>
            snd (renderSection L block) =
              Inr (Element ''div'' [(''class'', ''cv-section'')] (rendered_children L bs)))
       \<and> (\<forall>subsection. subsectionTitle L block (Element ''div'' [(''class'', ''cv-subsection'')] []) =
                      Inr subsection \<longrightarrow>
            snd (renderSubsection L block) =
              Inr (foldl appendChild subsection (rendered_children L bs)))
       \<and> (field block ''type'' = JStr ''section'' \<longrightarrow>
            snd (renderBlock L block) = map_sum id Some (snd (renderSection L block)))
       \<and> (field block ''type'' = JStr ''subsection'' \<longrightarrow>
            snd (renderBlock L block) = map_sum id Some (snd (renderSubsection L block)))"
proof -
  have each: "renderEach L bs parent =
           (concat (map (\<lambda>b. fst (renderBlock L b)) bs),
            Inr (foldl appendChild parent (rendered_children L bs)))" for parent
    using assms(2) by (rule renderEach_results)
  have titled: "snd (renderSection L block) =
      Inr (foldl appendChild sec (rendered_children L bs))"
    if "sectionTitle L block (Element ''div'' [(''class'', ''cv-section'')] []) = Inr sec"
    for sec
    using that assms(1) each by (simp add: renderSection.simps)
  have untitled: "snd (renderSection L block) =
      Inr (Element ''div'' [(''class'', ''cv-section'')] (rendered_children L bs))"
    if "\<not> truthy (field block ''title'')"
    using that titled [of "Element ''div'' [(''class'', ''cv-section'')] []"]
      field_not_nullish [of block "''blocks''"] assms(1)
    by (simp add: sectionTitle_def foldl_appendChild_Element)
  have sub: "snd (renderSubsection L block) =
      Inr (foldl appendChild subsec (rendered_children L bs))"
    if "subsectionTitle L block (Element ''div'' [(''class'', ''cv-subsection'')] []) = Inr subsec"
    for subsec
    using that assms(1) each by (simp add: renderSubsection.simps)
  have truthy_block: "truthy block"
    using assms(1) by (cases block) auto
  have d1: "snd (renderBlock L block) = map_sum id Some (snd (renderSection L block))"
    if "field block ''type'' = JStr ''section''"
    using that truthy_block by (simp add: renderBlock.simps [of L block] split: prod.splits)
  have d2: "snd (renderBlock L block) = map_sum id Some (snd (renderSubsection L block))"
    if "field block ''type'' = JStr ''subsection''"
    using that truthy_block by (simp add: renderBlock.simps [of L block] split: prod.splits)
  show ?thesis
    using titled untitled sub d1 d2 by blast
qed

lemma renderBlock_paragraph:
  "renderBlock ''en'' (JObj [(''type'', JStr ''paragraph''), (''text'', JStr ''Built things'')]) =
     ([], Inr (Some (Element ''p'' [(''class'', ''cv-paragraph'')] [Markup ''Built things''])))"
  by code_simp

text \<open>
  A section without a title that holds a subsection that holds a paragraph: three
  levels, in the order of the input.
\<close>

theorem renderSection_children_witness:
  "snd (renderSection ''en''
     (JObj [(''type'', JStr ''section''),
            (''blocks'', JArr
               [JObj [(''type'', JStr ''subsection''), (''title'', JStr ''Acme''),
                      (''blocks'', JArr
                         [JObj [(''type'', JStr ''paragraph''),
                                (''text'', JStr ''Built things'')]])]])])) =
   Inr (Element ''div'' [(''class'', ''cv-section'')]
         [Element ''div'' [(''class'', ''cv-subsection'')]
            [Element ''h3'' [(''class'', ''subsection-title'')] [Markup ''Acme''],
             Element ''p'' [(''class'', ''cv-paragraph'')] [Markup ''Built things'']]])"
proof -
  let ?p = "JObj [(''type'', JStr ''paragraph''), (''text'', JStr ''Built things'')]"
  let ?sub = "JObj [(''type'', JStr ''subsection''), (''title'', JStr ''Acme''),
                    (''blocks'', JArr [?p])]"
  let ?sec = "JObj [(''type'', JStr ''section''), (''blocks'', JArr [?sub])]"
  have leaf: "\<forall>b \<in> set [?p]. \<exists>r. snd (renderBlock ''en'' b) = Inr r"
    using renderBlock_paragraph by simp
  have title: "subsectionTitle ''en'' ?sub (Element ''div'' [(''class'', ''cv-subsection'')] []) =
      Inr (Element ''div'' [(''class'', ''cv-subsection'')]
             [Element ''h3'' [(''class'', ''subsection-title'')] [Markup ''Acme'']])"
    by code_simp
  have inner: "snd (renderBlock ''en'' ?sub) =
      Inr (Some (Element ''div'' [(''class'', ''cv-subsection'')]
            [Element ''h3'' [(''class'', ''subsection-title'')] [Markup ''Acme''],
             Element ''p'' [(''class'', ''cv-paragraph'')] [Markup ''Built things'']]))"
    using renderSection_children [of ?sub "[?p]" "''en''", OF _ leaf] title
      renderBlock_paragraph
    by (simp add: rendered_children_def List.map_filter_simps)
  then have subsections: "\<forall>b \<in> set [?sub]. \<exists>r. snd (renderBlock ''en'' b) = Inr r"
    by simp
  show ?thesis
    using renderSection_children [of ?sec "[?sub]" "''en''", OF _ subsections] inner
    by (simp add: rendered_children_def List.map_filter_simps)
qed

section \<open>The outline and the section anchors\<close>

lemma generateId_ok_strings:
  assumes "generateId v = Inr sectionId"
  shows "\<exists>label. textContent_string v = Inr label" and "\<exists>s. to_string v = Inr s"
  using assms by (cases v; simp add: generateId_def textContent_string_def split: if_splits)+

lemma appendChild_attribute: "getAttribute (appendChild parent child) k = getAttribute parent k"
  by (cases parent) auto

lemma renderEach_attribute:
  "renderEach L bs parent = (w, Inr parent1) \<Longrightarrow> getAttribute parent1 k = getAttribute parent k"
proof (induction bs arbitrary: parent w)
  case Nil
  then show ?case by simp
next
  case (Cons b bs)
  then show ?case
    by (auto simp: appendChild_attribute split: prod.splits sum.splits option.splits)
qed

lemma sectionTitle_id:
  assumes "truthy (field block ''title'')"
    and "generateId (getLocalizedText (field block ''title'') L) = Inr sectionId"
  shows "\<exists>sec. sectionTitle L block (Element ''div'' [(''class'', ''cv-section'')] []) = Inr sec
           \<and> getAttribute sec ''id'' = Some sectionId"
proof -
  obtain s where "to_string (getLocalizedText (field block ''title'') L) = Inr s"
    using generateId_ok_strings(2) [OF assms(2)] by blast
  then show ?thesis
    using assms truthy_field_not_nullish [OF assms(1)]
    by (simp add: sectionTitle_def Let_def createElement_def document_createElement_fixed)
qed

lemma tocEach_results:
  assumes "tocEach L bs tocList = Inr tocList1"
  shows "tocList1 = foldl appendChild tocList (outline_entries L bs)"
  using assms
proof (induction bs arbitrary: tocList)
  case Nil
  then show ?case by (simp add: outline_entries_def List.map_filter_simps)
next
  case (Cons b bs)
  then show ?case
    by (auto simp: outline_entries_def List.map_filter_simps split: sum.splits option.splits)
qed

lemma tocEach_all:
  assumes "\<forall>b \<in> set bs. \<exists>r. tocItem L b = Inr r"
  shows "tocEach L bs tocList = Inr (foldl appendChild tocList (outline_entries L bs))"
  using assms
proof (induction bs arbitrary: tocList)
  case Nil
  then show ?case by (simp add: outline_entries_def List.map_filter_simps)
next
  case (Cons b bs)
  then show ?case
    by (auto simp: outline_entries_def List.map_filter_simps split: sum.splits option.splits)
qed

lemma tocEach_throws:
  assumes "\<exists>b \<in> set bs. \<exists>e. tocItem L b = Inl e"
  shows "\<exists>e. tocEach L bs tocList = Inl e"
  using assms
proof (induction bs arbitrary: tocList)
  case Nil
  then show ?case by simp
next
  case (Cons b bs)
  then show ?case
    by (cases "tocItem L b") (auto split: option.splits)
qed

lemma outline_entries_append:
  "outline_entries L (xs @ ys) = outline_entries L xs @ outline_entries L ys"
  by (simp add: outline_entries_def List.map_filter_def)

lemma outline_entries_single:
  "outline_entries L [b] = (case tocItem L b of Inr (Some item) \<Rightarrow> [item] | _ \<Rightarrow> [])"
  by (simp add: outline_entries_def List.map_filter_simps split: sum.splits option.splits)

lemma generateTableOfContents_all:
  assumes "field cvData ''blocks'' = JArr bs"
    and "\<forall>b \<in> set bs. \<exists>r. tocItem L b = Inr r"
  shows "generateTableOfContents L cvData =
           Inr (Some (Element ''div'' [(''class'', ''cv-toc'')]
                  [Element ''h3'' [(''class'', ''toc-title'')] [TextNode ''Table of Contents''],
                   Element ''ul'' [(''class'', ''toc-list'')] (outline_entries L bs)]))"
proof -
  have "field cvData ''blocks'' \<noteq> JUndefined"
    using assms(1) by simp
  then have "truthy cvData"
    by (cases cvData) auto
  then show ?thesis
    using assms tocEach_all [OF assms(2), of "Element ''ul'' [(''class'', ''toc-list'')] []"]
    by (simp add: generateTableOfContents_def Let_def foldl_appendChild_Element)
qed

lemma generateTableOfContents_throws:
  assumes "field cvData ''blocks'' = JArr bs"
    and "\<exists>b \<in> set bs. \<exists>e. tocItem L b = Inl e"
  shows "\<exists>e. generateTableOfContents L cvData = Inl e"
proof -
  have "field cvData ''blocks'' \<noteq> JUndefined"
    using assms(1) by simp
  then have "truthy cvData"
    by (cases cvData) auto
  moreover obtain e where "tocEach L bs (Element ''ul'' [(''class'', ''toc-list'')] []) = Inl e"
    using tocEach_throws [OF assms(2)] by blast
  ultimately show ?thesis
    using assms(1) by (simp add: generateTableOfContents_def Let_def)
qed

lemma renderSection_from_title:
  assumes "sectionTitle L block (Element ''div'' [(''class'', ''cv-section'')] []) = Inr sec0"
  shows "renderSection L block =
           (if truthy (field block ''blocks'') \<and> isArray (field block ''blocks'')
            then renderEach L (elements (field block ''blocks'')) sec0
            else ([], Inr sec0))"
  using assms by (simp add: renderSection.simps)

lemma renderSection_succeeds:
  assumes "sectionTitle L block (Element ''div'' [(''class'', ''cv-section'')] []) = Inr sec0"
    and "\<forall>b \<in> set (elements (field block ''blocks'')). \<exists>r. snd (renderBlock L b) = Inr r"
  shows "\<exists>w sec. renderSection L block = (w, Inr sec)
           \<and> (\<forall>k. getAttribute sec k = getAttribute sec0 k)"
proof (cases "truthy (field block ''blocks'') \<and> isArray (field block ''blocks'')")
  case True
  obtain w sec where r: "renderEach L (elements (field block ''blocks'')) sec0 = (w, Inr sec)"
    using renderEach_results [OF assms(2), of sec0] by blast
  then show ?thesis
    using True renderSection_from_title [OF assms(1)] renderEach_attribute [OF r] by simp
next
  case False
  then show ?thesis
    using renderSection_from_title [OF assms(1)] by auto
qed

lemma renderCV_all:
  assumes "field cvData ''blocks'' = JArr bs"
    and "\<forall>b \<in> set bs. \<exists>r. tocItem L b = Inr r"
    and "\<forall>b \<in> set bs. \<exists>r. snd (renderBlock L b) = Inr r"
  shows "renderCV L cvData =
           (concat (map (\<lambda>b. fst (renderBlock L b)) bs),
            Inr \<lparr>toc = Some (Element ''div'' [(''class'', ''cv-toc'')]
                    [Element ''h3'' [(''class'', ''toc-title'')] [TextNode ''Table of Contents''],
                     Element ''ul'' [(''class'', ''toc-list'')] (outline_entries L bs)]),
                 content = Element ''div'' [(''class'', ''cv-document'')]
                             (rendered_children L bs)\<rparr>)"
proof -
  have "field cvData ''blocks'' \<noteq> JUndefined"
    using assms(1) by simp
  then have "truthy cvData"
    by (cases cvData) auto
  then show ?thesis
    using assms(1) generateTableOfContents_all [OF assms(1,2)]
      renderEach_results [OF assms(3), of "Element ''div'' [(''class'', ''cv-document'')] []"]
    by (simp add: renderCV_def Let_def foldl_appendChild_Element)
qed

text \<open>
  C6. For a section block with a title, the outline and the section renderer compute the
  same identifier, \<open>generateId\<close> of the resolved title. Where it fails (the resolved title
  is not a string), both fail with its error. Where it succeeds, the outline's item for
  the block is a link whose \<^verbatim>\<open>href\<close> is \<^verbatim>\<open>#\<close> followed by the identifier; the section
  renderer builds a section element that carries the identifier as its \<^verbatim>\<open>id\<close> and
  goes on to the children of the block with it, so that the section is rendered, with
  that \<^verbatim>\<open>id\<close>, whenever none of its children throws. A section without a title has no
  item and is rendered all the same. The outline of a document lists the items of the
  top-level blocks in document order, the item of the block at the place of the block;
  it is built whenever no top-level block makes the outline throw, and the document is
  then rendered with it.
\<close>

theorem outline_anchor_is_section_id:
  assumes "field block ''type'' = JStr ''section''"
  shows "(truthy (field block ''title'') \<longrightarrow>
           (case generateId (getLocalizedText (field block ''title'') L) of
              Inl e \<Rightarrow> tocItem L block = Inl e \<and> renderSection L block = ([], Inl e)
            | Inr sectionId \<Rightarrow>
                (\<exists>label. tocItem L block =
                   Inr (Some (Element ''li'' [(''class'', ''toc-item'')]
                                [Element ''a''
                                   [(''href'', ''#'' @ sectionId), (''class'', ''toc-link'')]
                                   label])))
                \<and> (\<forall>w sec. renderSection L block = (w, Inr sec) \<longrightarrow>
                       getAttribute sec ''id'' = Some sectionId)
                \<and> (\<exists>sec0. getAttribute sec0 ''id'' = Some sectionId
                       \<and> renderSection L block =
                           (if truthy (field block ''blocks'') \<and> isArray (field block ''blocks'')
                            then renderEach L (elements (field block ''blocks'')) sec0
                            else ([], Inr sec0)))
                \<and> ((\<forall>b \<in> set (elements (field block ''blocks'')).
                        \<exists>r. snd (renderBlock L b) = Inr r) \<longrightarrow>
                     (\<exists>w sec. renderSection L block = (w, Inr sec)
                        \<and> getAttribute sec ''id'' = Some sectionId
                        \<and> renderBlock L block = (w, Inr (Some sec))))))
       \<and> (\<not> truthy (field block ''title'') \<longrightarrow>
             tocItem L block = Inr None
             \<and> snd (renderBlock L block) = map_sum id Some (snd (renderSection L block))
             \<and> ((\<forall>b \<in> set (elements (field block ''blocks'')).
                     \<exists>r. snd (renderBlock L b) = Inr r) \<longrightarrow>
                  (\<exists>w sec. renderSection L block = (w, Inr sec)
                     \<and> getAttribute sec ''class'' = Some ''cv-section''
                     \<and> renderBlock L block = (w, Inr (Some sec)))))
       \<and> (\<forall>before after.
             outline_entries L (before @ block # after) =
               outline_entries L before
               @ (case tocItem L block of Inr (Some item) \<Rightarrow> [item] | _ \<Rightarrow> [])
               @ outline_entries L after)
       \<and> (\<forall>cvData bs.
             field cvData ''blocks'' = JArr bs \<longrightarrow>
             (\<forall>outline.
                generateTableOfContents L cvData = Inr (Some outline) \<longrightarrow>
                outline =
                  Element ''div'' [(''class'', ''cv-toc'')]
                    [Element ''h3'' [(''class'', ''toc-title'')] [TextNode ''Table of Contents''],
                     Element ''ul'' [(''class'', ''toc-list'')] (outline_entries L bs)])
             \<and> ((\<forall>b \<in> set bs. \<exists>r. tocItem L b = Inr r) \<longrightarrow>
                  generateTableOfContents L cvData =
                    Inr (Some (Element ''div'' [(''class'', ''cv-toc'')]
                           [Element ''h3'' [(''class'', ''toc-title'')]
                              [TextNode ''Table of Contents''],
                            Element ''ul'' [(''class'', ''toc-list'')] (outline_entries L bs)])))
             \<and> ((\<exists>b \<in> set bs. \<exists>e. tocItem L b = Inl e) \<longrightarrow>
                  (\<exists>e. generateTableOfContents L cvData = Inl e))
             \<and> ((\<forall>b \<in> set bs. \<exists>r. tocItem L b = Inr r)
                  \<and> (\<forall>b \<in> set bs. \<exists>r. snd (renderBlock L b) = Inr r) \<longrightarrow>
                  renderCV L cvData =
                    (concat (map (\<lambda>b. fst (renderBlock L b)) bs),
                     Inr \<lparr>toc = Some (Element ''div'' [(''class'', ''cv-toc'')]
                             [Element ''h3'' [(''class'', ''toc-title'')]
                                [TextNode ''Table of Contents''],
                              Element ''ul'' [(''class'', ''toc-list'')] (outline_entries L bs)]),
                          content = Element ''div'' [(''class'', ''cv-document'')]
                                      (rendered_children L bs)\<rparr>)))"
proof -
  obtain kvs where obj: "block = JObj kvs"
    using assms by (cases block) auto
  have truthy_block: "truthy block"
    using obj by simp
  have dispatch: "renderBlock L block =
      (case renderSection L block of (w, r) \<Rightarrow> (w, map_sum id Some r))"
    using assms truthy_block by (simp add: renderBlock.simps [of L block])
  have titled: "case generateId (getLocalizedText (field block ''title'') L) of
              Inl e \<Rightarrow> tocItem L block = Inl e \<and> renderSection L block = ([], Inl e)
            | Inr sectionId \<Rightarrow>
                (\<exists>label. tocItem L block =
                   Inr (Some (Element ''li'' [(''class'', ''toc-item'')]
                                [Element ''a''
                                   [(''href'', ''#'' @ sectionId), (''class'', ''toc-link'')]
                                   label])))
                \<and> (\<forall>w sec. renderSection L block = (w, Inr sec) \<longrightarrow>
                       getAttribute sec ''id'' = Some sectionId)
                \<and> (\<exists>sec0. getAttribute sec0 ''id'' = Some sectionId
                       \<and> renderSection L block =
                           (if truthy (field block ''blocks'') \<and> isArray (field block ''blocks'')
                            then renderEach L (elements (field block ''blocks'')) sec0
                            else ([], Inr sec0)))
                \<and> ((\<forall>b \<in> set (elements (field block ''blocks'')).
                        \<exists>r. snd (renderBlock L b) = Inr r) \<longrightarrow>
                     (\<exists>w sec. renderSection L block = (w, Inr sec)
                        \<and> getAttribute sec ''id'' = Some sectionId
                        \<and> renderBlock L block = (w, Inr (Some sec))))"
    if title: "truthy (field block ''title'')"
  proof (cases "generateId (getLocalizedText (field block ''title'') L)")
    case (Inl e)
    then show ?thesis
      using assms obj title
      by (simp add: tocItem_def renderSection.simps sectionTitle_def Let_def)
  next
    case (Inr sectionId)
    obtain label where label: "textContent_string (getLocalizedText (field block ''title'') L) = Inr label"
      using generateId_ok_strings(1) [OF Inr] by blast
    have item: "\<exists>label. tocItem L block =
                   Inr (Some (Element ''li'' [(''class'', ''toc-item'')]
                                [Element ''a''
                                   [(''href'', ''#'' @ sectionId), (''class'', ''toc-link'')]
                                   label]))"
      using assms obj title Inr label by (simp add: tocItem_def Let_def)
    obtain sec0 where sec0:
      "sectionTitle L block (Element ''div'' [(''class'', ''cv-section'')] []) = Inr sec0"
      "getAttribute sec0 ''id'' = Some sectionId"
      using sectionTitle_id [OF title Inr] by blast
    have every: "getAttribute sec ''id'' = Some sectionId" if "renderSection L block = (w, Inr sec)"
      for w sec
      using that sec0 renderEach_attribute [of L _ sec0 w sec "''id''"]
      by (auto simp: renderSection.simps split: if_splits)
    have built: "\<exists>sec0. getAttribute sec0 ''id'' = Some sectionId
                       \<and> renderSection L block =
                           (if truthy (field block ''blocks'') \<and> isArray (field block ''blocks'')
                            then renderEach L (elements (field block ''blocks'')) sec0
                            else ([], Inr sec0))"
      using sec0(2) renderSection_from_title [OF sec0(1)] by blast
    have whole: "\<exists>w sec. renderSection L block = (w, Inr sec)
                        \<and> getAttribute sec ''id'' = Some sectionId
                        \<and> renderBlock L block = (w, Inr (Some sec))"
      if kids: "\<forall>b \<in> set (elements (field block ''blocks'')). \<exists>r. snd (renderBlock L b) = Inr r"
    proof -
      obtain w sec where r: "renderSection L block = (w, Inr sec)"
        using renderSection_succeeds [OF sec0(1) kids] by blast
      then show ?thesis
        using every [OF r] dispatch by simp
    qed
    show ?thesis
      using item every built whole Inr by simp
  qed
  have untitled: "tocItem L block = Inr None
      \<and> snd (renderBlock L block) = map_sum id Some (snd (renderSection L block))
      \<and> ((\<forall>b \<in> set (elements (field block ''blocks'')).
                     \<exists>r. snd (renderBlock L b) = Inr r) \<longrightarrow>
                  (\<exists>w sec. renderSection L block = (w, Inr sec)
                     \<and> getAttribute sec ''class'' = Some ''cv-section''
                     \<and> renderBlock L block = (w, Inr (Some sec))))"
    if none: "\<not> truthy (field block ''title'')"
  proof -
    have t: "sectionTitle L block (Element ''div'' [(''class'', ''cv-section'')] []) =
               Inr (Element ''div'' [(''class'', ''cv-section'')] [])"
      using none obj by (simp add: sectionTitle_def)
    have "\<exists>w sec. renderSection L block = (w, Inr sec)
                     \<and> getAttribute sec ''class'' = Some ''cv-section''
                     \<and> renderBlock L block = (w, Inr (Some sec))"
      if kids: "\<forall>b \<in> set (elements (field block ''blocks'')). \<exists>r. snd (renderBlock L b) = Inr r"
    proof -
      obtain w sec where r: "renderSection L block = (w, Inr sec)"
        "\<forall>k. getAttribute sec k = getAttribute (Element ''div'' [(''class'', ''cv-section'')] []) k"
        using renderSection_succeeds [OF t kids] by blast
      then show ?thesis
        using dispatch by simp
    qed
    then show ?thesis
      using none assms obj dispatch by (simp add: tocItem_def split: prod.splits)
  qed
  have place: "outline_entries L (before @ block # after) =
               outline_entries L before
               @ (case tocItem L block of Inr (Some item) \<Rightarrow> [item] | _ \<Rightarrow> [])
               @ outline_entries L after" for before after
    using outline_entries_append [of L before "[block] @ after"]
      outline_entries_append [of L "[block]" after] outline_entries_single [of L block]
    by simp
  have order: "outline =
               Element ''div'' [(''class'', ''cv-toc'')]
                 [Element ''h3'' [(''class'', ''toc-title'')] [TextNode ''Table of Contents''],
                  Element ''ul'' [(''class'', ''toc-list'')] (outline_entries L bs)]"
    if "field cvData ''blocks'' = JArr bs" "generateTableOfContents L cvData = Inr (Some outline)"
    for cvData bs outline
    using that tocEach_results [of L bs "Element ''ul'' [(''class'', ''toc-list'')] []"]
    by (auto simp: generateTableOfContents_def Let_def foldl_appendChild_Element
        split: if_splits sum.splits)
  have part1: "truthy (field block ''title'') \<longrightarrow>
           (case generateId (getLocalizedText (field block ''title'') L) of
              Inl e \<Rightarrow> tocItem L block = Inl e \<and> renderSection L block = ([], Inl e)
            | Inr sectionId \<Rightarrow>
                (\<exists>label. tocItem L block =
                   Inr (Some (Element ''li'' [(''class'', ''toc-item'')]
                                [Element ''a''
                                   [(''href'', ''#'' @ sectionId), (''class'', ''toc-link'')]
                                   label])))
                \<and> (\<forall>w sec. renderSection L block = (w, Inr sec) \<longrightarrow>
                       getAttribute sec ''id'' = Some sectionId)
                \<and> (\<exists>sec0. getAttribute sec0 ''id'' = Some sectionId
                       \<and> renderSection L block =
                           (if truthy (field block ''blocks'') \<and> isArray (field block ''blocks'')
                            then renderEach L (elements (field block ''blocks'')) sec0
                            else ([], Inr sec0)))
                \<and> ((\<forall>b \<in> set (elements (field block ''blocks'')).
                        \<exists>r. snd (renderBlock L b) = Inr r) \<longrightarrow>
                     (\<exists>w sec. renderSection L block = (w, Inr sec)
                        \<and> getAttribute sec ''id'' = Some sectionId
                        \<and> renderBlock L block = (w, Inr (Some sec)))))"
    by (rule impI) (rule titled)
  have part2: "\<not> truthy (field block ''title'') \<longrightarrow>
             tocItem L block = Inr None
             \<and> snd (renderBlock L block) = map_sum id Some (snd (renderSection L block))
             \<and> ((\<forall>b \<in> set (elements (field block ''blocks'')).
                     \<exists>r. snd (renderBlock L b) = Inr r) \<longrightarrow>
                  (\<exists>w sec. renderSection L block = (w, Inr sec)
                     \<and> getAttribute sec ''class'' = Some ''cv-section''
                     \<and> renderBlock L block = (w, Inr (Some sec))))"
    by (rule impI) (rule untitled)
  have part3: "\<forall>before after.
             outline_entries L (before @ block # after) =
               outline_entries L before
               @ (case tocItem L block of Inr (Some item) \<Rightarrow> [item] | _ \<Rightarrow> [])
               @ outline_entries L after"
    by (intro allI) (rule place)
  have part4: "\<forall>cvData bs.
             field cvData ''blocks'' = JArr bs \<longrightarrow>
             (\<forall>outline.
                generateTableOfContents L cvData = Inr (Some outline) \<longrightarrow>
                outline =
                  Element ''div'' [(''class'', ''cv-toc'')]
                    [Element ''h3'' [(''class'', ''toc-title'')] [TextNode ''Table of Contents''],
                     Element ''ul'' [(''class'', ''toc-list'')] (outline_entries L bs)])
             \<and> ((\<forall>b \<in> set bs. \<exists>r. tocItem L b = Inr r) \<longrightarrow>
                  generateTableOfContents L cvData =
                    Inr (Some (Element ''div'' [(''class'', ''cv-toc'')]
                           [Element ''h3'' [(''class'', ''toc-title'')]
                              [TextNode ''Table of Contents''],
                            Element ''ul'' [(''class'', ''toc-list'')] (outline_entries L bs)])))
             \<and> ((\<exists>b \<in> set bs. \<exists>e. tocItem L b = Inl e) \<longrightarrow>
                  (\<exists>e. generateTableOfContents L cvData = Inl e))
             \<and> ((\<forall>b \<in> set bs. \<exists>r. tocItem L b = Inr r)
                  \<and> (\<forall>b \<in> set bs. \<exists>r. snd (renderBlock L b) = Inr r) \<longrightarrow>
                  renderCV L cvData =
                    (concat (map (\<lambda>b. fst (renderBlock L b)) bs),
                     Inr \<lparr>toc = Some (Element ''div'' [(''class'', ''cv-toc'')]
                             [Element ''h3'' [(''class'', ''toc-title'')]
                                [TextNode ''Table of Contents''],
                              Element ''ul'' [(''class'', ''toc-list'')] (outline_entries L bs)]),
                          content = Element ''div'' [(''class'', ''cv-document'')]
                                      (rendered_children L bs)\<rparr>))"
  proof (intro allI impI conjI)
    fix cvData bs outline
    assume "field cvData ''blocks'' = JArr bs"
      and "generateTableOfContents L cvData = Inr (Some outline)"
    then show "outline =
                  Element ''div'' [(''class'', ''cv-toc'')]
                    [Element ''h3'' [(''class'', ''toc-title'')] [TextNode ''Table of Contents''],
                     Element ''ul'' [(''class'', ''toc-list'')] (outline_entries L bs)]"
      by (rule order)
  next
    fix cvData bs
    assume "field cvData ''blocks'' = JArr bs"
      and "\<forall>b \<in> set bs. \<exists>r. tocItem L b = Inr r"
    then show "generateTableOfContents L cvData =
                    Inr (Some (Element ''div'' [(''class'', ''cv-toc'')]
                           [Element ''h3'' [(''class'', ''toc-title'')]
                              [TextNode ''Table of Contents''],
                            Element ''ul'' [(''class'', ''toc-list'')] (outline_entries L bs)]))"
      by (rule generateTableOfContents_all)
  next
    fix cvData bs
    assume "field cvData ''blocks'' = JArr bs"
      and "\<exists>b \<in> set bs. \<exists>e. tocItem L b = Inl e"
    then show "\<exists>e. generateTableOfContents L cvData = Inl e"
      by (rule generateTableOfContents_throws)
  next
    fix cvData bs
    assume f: "field cvData ''blocks'' = JArr bs"
      and both: "(\<forall>b \<in> set bs. \<exists>r. tocItem L b = Inr r)
                  \<and> (\<forall>b \<in> set bs. \<exists>r. snd (renderBlock L b) = Inr r)"
    show "renderCV L cvData =
                    (concat (map (\<lambda>b. fst (renderBlock L b)) bs),
                     Inr \<lparr>toc = Some (Element ''div'' [(''class'', ''cv-toc'')]
                             [Element ''h3'' [(''class'', ''toc-title'')]
                                [TextNode ''Table of Contents''],
                              Element ''ul'' [(''class'', ''toc-list'')] (outline_entries L bs)]),
                          content = Element ''div'' [(''class'', ''cv-document'')]
                                      (rendered_children L bs)\<rparr>)"
      by (rule renderCV_all [OF f conjunct1 [OF both] conjunct2 [OF both]])
  qed
  show ?thesis
    by (rule conjI [OF part1 conjI [OF part2 conjI [OF part3 part4]]])
qed

theorem outline_anchor_is_section_id_witness:
  "tocItem ''en'' (JObj [(''type'', JStr ''section''), (''title'', JStr ''Work Experience!!'')]) =
     Inr (Some (Element ''li'' [(''class'', ''toc-item'')]
                  [Element ''a'' [(''href'', ''#work-experience''), (''class'', ''toc-link'')]
                     [TextNode ''Work Experience!!'']]))
   \<and> renderSection ''en''
       (JObj [(''type'', JStr ''section''), (''title'', JStr ''Work Experience!!'')]) =
     ([], Inr (Element ''div'' [(''class'', ''cv-section''), (''id'', ''work-experience'')]
           [Element ''h2'' [(''class'', ''section-title'')]
              [Markup ''Work Experience!!'',
               Element ''a''
                 [(''href'', ''#work-experience''), (''class'', ''section-hash-link''),
                  (''title'', ''Link to Work Experience!!'')]
                 [Markup ''#'']]]))
   \<and> (\<exists>w sec. renderSection ''en''
          (JObj [(''type'', JStr ''section''), (''title'', JStr ''Work Experience!!'')]) =
            (w, Inr sec)
        \<and> getAttribute sec ''id'' = Some ''work-experience'')
   \<and> generateTableOfContents ''en''
       (JObj [(''blocks'',
          JArr [JObj [(''type'', JStr ''section''), (''title'', JStr ''Work Experience!!'')]])]) =
     Inr (Some (Element ''div'' [(''class'', ''cv-toc'')]
            [Element ''h3'' [(''class'', ''toc-title'')] [TextNode ''Table of Contents''],
             Element ''ul'' [(''class'', ''toc-list'')]
               [Element ''li'' [(''class'', ''toc-item'')]
                  [Element ''a'' [(''href'', ''#work-experience''), (''class'', ''toc-link'')]
                     [TextNode ''Work Experience!!'']]]]))"
proof -
  let ?b = "JObj [(''type'', JStr ''section''), (''title'', JStr ''Work Experience!!'')]"
  let ?cv = "JObj [(''blocks'', JArr [?b])]"
  have a: "field ?b ''type'' = JStr ''section''"
    by simp
  have t: "truthy (field ?b ''title'')"
    by simp
  have g: "generateId (getLocalizedText (field ?b ''title'') ''en'') = Inr ''work-experience''"
    by code_simp
  have r: "renderSection ''en'' ?b =
     ([], Inr (Element ''div'' [(''class'', ''cv-section''), (''id'', ''work-experience'')]
           [Element ''h2'' [(''class'', ''section-title'')]
              [Markup ''Work Experience!!'',
               Element ''a''
                 [(''href'', ''#work-experience''), (''class'', ''section-hash-link''),
                  (''title'', ''Link to Work Experience!!'')]
                 [Markup ''#'']]]))"
    by code_simp
  have c: "tocItem ''en'' ?b =
     Inr (Some (Element ''li'' [(''class'', ''toc-item'')]
                  [Element ''a'' [(''href'', ''#work-experience''), (''class'', ''toc-link'')]
                     [TextNode ''Work Experience!!'']]))"
    by code_simp
  have e: "outline_entries ''en'' [?b] =
      [Element ''li'' [(''class'', ''toc-item'')]
                  [Element ''a'' [(''href'', ''#work-experience''), (''class'', ''toc-link'')]
                     [TextNode ''Work Experience!!'']]]"
    using c by (simp add: outline_entries_def List.map_filter_simps)
  have f: "field ?cv ''blocks'' = JArr [?b]"
    by simp
  note main = outline_anchor_is_section_id [OF a, of "''en''"]
  note titled = main [THEN conjunct1, THEN mp, OF t]
  note outline = main [THEN conjunct2, THEN conjunct2, THEN conjunct2, THEN spec, THEN spec,
      THEN mp, OF f]
  have children: "\<forall>b \<in> set (elements (field ?b ''blocks'')). \<exists>r. snd (renderBlock ''en'' b) = Inr r"
    by simp
  have sec: "\<exists>w sec. renderSection ''en'' ?b = (w, Inr sec)
        \<and> getAttribute sec ''id'' = Some ''work-experience''"
  proof -
    have "\<exists>w sec. renderSection ''en'' ?b = (w, Inr sec)
            \<and> getAttribute sec ''id'' = Some ''work-experience''
            \<and> renderBlock ''en'' ?b = (w, Inr (Some sec))"
      using titled children unfolding g by simp
    then show ?thesis
      by blast
  qed
  have all: "\<forall>b \<in> set [?b]. \<exists>r. tocItem ''en'' b = Inr r"
    using c by simp
  have toc: "generateTableOfContents ''en'' ?cv =
     Inr (Some (Element ''div'' [(''class'', ''cv-toc'')]
            [Element ''h3'' [(''class'', ''toc-title'')] [TextNode ''Table of Contents''],
             Element ''ul'' [(''class'', ''toc-list'')] (outline_entries ''en'' [?b])]))"
    using outline [THEN conjunct2, THEN conjunct1] all by (rule mp)
  show ?thesis
    using r c sec toc e by simp
qed


section \<open>Properties of renderCV\<close>

lemma to_string_not_invalid:
  "to_string v \<noteq> Inl InvalidCVData" "join_elements vs \<noteq> Inl InvalidCVData"
  by (induction v and vs rule: to_string_join_elements.induct)
     (auto split: sum.splits if_splits)

lemma map_sum_id_Inl: "map_sum id f r = Inl e \<longleftrightarrow> r = Inl e"
  by (cases r) auto

lemma createElement_not_invalid: "createElement tag v L attrs \<noteq> Inl InvalidCVData"
  by (auto simp: createElement_def document_createElement_def Let_def split: sum.splits)

lemma generateId_not_invalid: "generateId v \<noteq> Inl InvalidCVData"
  by (auto simp: generateId_def split: jsval.splits)

lemma renderContact_not_invalid: "renderContact L c \<noteq> Inl InvalidCVData"
  using to_string_not_invalid(1)
  by (auto simp: renderContact_def contactItem_def Let_def split: sum.splits if_splits)

lemma leaf_not_invalid:
  "renderHeader L b \<noteq> Inl InvalidCVData"
  "renderHeading L b \<noteq> Inl InvalidCVData"
  "renderParagraph L b \<noteq> Inl InvalidCVData"
  "renderList L b \<noteq> Inl InvalidCVData"
proof -
  show "renderHeader L b \<noteq> Inl InvalidCVData"
    using createElement_not_invalid renderContact_not_invalid
    by (auto simp: renderHeader_def Let_def map_sum_id_Inl split: sum.splits if_splits)
  show "renderHeading L b \<noteq> Inl InvalidCVData"
    using createElement_not_invalid to_string_not_invalid(1)
    by (auto simp: renderHeading_def Let_def split: sum.splits)
  show "renderParagraph L b \<noteq> Inl InvalidCVData"
    using createElement_not_invalid by (simp add: renderParagraph_def)
  have items: "appendItems L is ul \<noteq> Inl InvalidCVData" for "is" ul
    using createElement_not_invalid
    by (induction "is" arbitrary: ul) (auto split: sum.splits)
  show "renderList L b \<noteq> Inl InvalidCVData"
    using createElement_not_invalid items
    by (auto simp: renderList_def Let_def map_sum_id_Inl split: sum.splits if_splits)
qed

lemma title_not_invalid:
  "sectionTitle L b n \<noteq> Inl InvalidCVData" "subsectionTitle L b n \<noteq> Inl InvalidCVData"
  using createElement_not_invalid generateId_not_invalid to_string_not_invalid(1)
  by (auto simp: sectionTitle_def subsectionTitle_def Let_def map_sum_id_Inl split: sum.splits if_splits
     )

lemma dispatcher_not_invalid:
  "snd (renderBlock L b) \<noteq> Inl InvalidCVData"
  "snd (renderSection L b) \<noteq> Inl InvalidCVData"
  "snd (renderSubsection L b) \<noteq> Inl InvalidCVData"
  "snd (renderEach L bs parent) \<noteq> Inl InvalidCVData"
proof (induction L b and L b and L b and L bs parent
    rule: renderBlock_renderSection_renderSubsection_renderEach.induct)
  case (1 language block)
  then show ?case
    using leaf_not_invalid [of language block] to_string_not_invalid(1)
    by (auto simp: renderBlock.simps [of language block] returned_def map_sum_id_Inl
        split: prod.splits sum.splits if_splits)
next
  case (2 language block)
  then show ?case
    using title_not_invalid(1)
    by (auto simp: renderSection.simps [of language block] split: sum.splits)
next
  case (3 language block)
  then show ?case
    using title_not_invalid(2)
    by (auto simp: renderSubsection.simps [of language block] split: sum.splits)
next
  case (4 language parent)
  then show ?case by simp
next
  case (5 language subBlock rest parent)
  obtain w r where b: "renderBlock language subBlock = (w, r)"
    by (cases "renderBlock language subBlock")
  show ?case
  proof (cases r)
    case (Inl e)
    then show ?thesis
      using b 5(1) by simp
  next
    case (Inr child)
    have "snd (renderEach language rest
                 (case child of None \<Rightarrow> parent | Some c \<Rightarrow> appendChild parent c)) \<noteq>
          Inl InvalidCVData"
      using 5(2) [OF b [symmetric] Inr] .
    then show ?thesis
      using b Inr by (auto split: prod.splits)
  qed
qed


lemma tocEach_not_invalid: "tocEach L bs tocList \<noteq> Inl InvalidCVData"
proof (induction bs arbitrary: tocList)
  case Nil
  then show ?case by simp
next
  case (Cons b bs)
  have "tocItem L b \<noteq> Inl InvalidCVData"
    using generateId_not_invalid to_string_not_invalid(1)
    by (auto simp: tocItem_def textContent_string_def Let_def split: sum.splits if_splits)
  with Cons show ?case
    by (auto split: sum.splits option.splits)
qed

text \<open>
  The invalid-document error is raised exactly when the document or its \<^verbatim>\<open>blocks\<close> is
  falsy. A truthy \<^verbatim>\<open>blocks\<close> that is not an array always ends in a TypeError.
\<close>

lemma renderCV_invalid_iff:
  "snd (renderCV L cvData) = Inl InvalidCVData \<longleftrightarrow>
     \<not> truthy cvData \<or> \<not> truthy (field cvData ''blocks'')"
proof -
  have each: "renderEach L bs parent \<noteq> (w, Inl InvalidCVData)" for bs parent w
    using dispatcher_not_invalid(4) [of L bs parent] by auto
  show ?thesis
    using tocEach_not_invalid each
    by (auto simp: renderCV_def generateTableOfContents_def Let_def
        split: sum.splits prod.splits if_splits)
qed

lemma renderCV_not_array:
  assumes "truthy (field cvData ''blocks'')" and "\<not> isArray (field cvData ''blocks'')"
  shows "renderCV L cvData = ([], Inl TypeError)" and "\<not> validateCVData cvData"
proof -
  have "truthy cvData"
    using assms(1) by (cases cvData) auto
  then show "renderCV L cvData = ([], Inl TypeError)" and "\<not> validateCVData cvData"
    using assms by (simp_all add: renderCV_def generateTableOfContents_def validateCVData_def)
qed

text \<open>
  C3. On a document whose \<^verbatim>\<open>blocks\<close> is the string \<^verbatim>\<open>"not-an-array"\<close> the guard of
  \<open>renderCV\<close> lets the document through, since the string is truthy, and the pass ends
  in the TypeError of \<^verbatim>\<open>cvData.blocks.forEach\<close> inside \<open>generateTableOfContents\<close>, not
  in the invalid-document error. \<open>validateCVData\<close> rejects the same document. On the
  empty array the pass succeeds, with an outline of no entries and empty content. In
  general the invalid-document error is raised exactly when the document or its
  \<^verbatim>\<open>blocks\<close> is falsy, and every truthy \<^verbatim>\<open>blocks\<close> that is not an array gives the
  TypeError.
\<close>

theorem renderCV_blocks_not_an_array:
  "renderCV language (JObj [(''blocks'', JStr ''not-an-array'')]) = ([], Inl TypeError)
   \<and> validateCVData (JObj [(''blocks'', JStr ''not-an-array'')]) = False
   \<and> renderCV language (JObj []) = ([], Inl InvalidCVData)
   \<and> renderCV language (JObj [(''blocks'', JArr [])]) =
       ([], Inr \<lparr>toc = Some (Element ''div'' [(''class'', ''cv-toc'')]
                               [Element ''h3'' [(''class'', ''toc-title'')]
                                  [TextNode ''Table of Contents''],
                                Element ''ul'' [(''class'', ''toc-list'')] []]),
                 content = Element ''div'' [(''class'', ''cv-document'')] []\<rparr>)
   \<and> (snd (renderCV language cvData) = Inl InvalidCVData \<longleftrightarrow>
        \<not> truthy cvData \<or> \<not> truthy (field cvData ''blocks''))
   \<and> (truthy (field cvData ''blocks'') \<and> \<not> isArray (field cvData ''blocks'') \<longrightarrow>
        renderCV language cvData = ([], Inl TypeError) \<and> \<not> validateCVData cvData)"
proof -
  have "renderCV language (JObj [(''blocks'', JStr ''not-an-array'')]) = ([], Inl TypeError)
   \<and> validateCVData (JObj [(''blocks'', JStr ''not-an-array'')]) = False
   \<and> renderCV language (JObj []) = ([], Inl InvalidCVData)
   \<and> renderCV language (JObj [(''blocks'', JArr [])]) =
       ([], Inr \<lparr>toc = Some (Element ''div'' [(''class'', ''cv-toc'')]
                               [Element ''h3'' [(''class'', ''toc-title'')]
                                  [TextNode ''Table of Contents''],
                                Element ''ul'' [(''class'', ''toc-list'')] []]),
                 content = Element ''div'' [(''class'', ''cv-document'')] []\<rparr>)"
    by (simp add: renderCV_def generateTableOfContents_def validateCVData_def)
  then show ?thesis
    using renderCV_invalid_iff [of language cvData] renderCV_not_array [of cvData]
    by blast
qed

theorem renderCV_blocks_not_an_array_witness:
  "renderCV ''en'' (JObj [(''blocks'', JStr ''not-an-array'')]) = ([], Inl TypeError)
   \<and> validateCVData (JObj [(''blocks'', JStr ''not-an-array'')]) = False"
  using renderCV_blocks_not_an_array [of "''en''"] by simp

section \<open>Properties of processText\<close>

























end
